theory Spec2Isabelle
  imports Main "HOL-Library.Sublist"
begin

chapter \<open>The shell command engine and the modal editor of unix-shell-js\<close>

text \<open>
  The development embeds the TypeScript class \<open>UnixShell\<close> (path resolution, the
  permission check, the built-in commands, \<open>execute\<close> with its pipe, redirect and
  wildcard stages) and the JavaScript class \<open>ViEditor\<close> (the keystroke handlers) as
  HOL functions, and proves properties of them.

  Conventions of the embedding.
  \<^item> A JavaScript string is a \<open>string\<close>: a list of code units, taken from the range
    0..255. \<open>length\<close> is the \<open>.length\<close> of the source.
  \<^item> An object used as a dictionary (a directory, the command table) is an association
    list holding the object's own keys in insertion order; \<open>objectKeys\<close> gives the
    order in which JavaScript enumerates them. A state holds a tree: strings and plain
    objects, no object in two places.
  \<^item> \<open>k in d\<close> and \<open>d[k]\<close> also see the properties a plain object inherits from
    \<open>Object.prototype\<close>; \<open>inheritedNames\<close> lists them, and the node accessor follows
    them as the source does. Where the source then calls a function of the runtime in
    place of a handler, or assigns into \<open>Object.prototype\<close>, the outcome is \<open>Foreign\<close>:
    what happens from there on is the runtime's, and is not described.
  \<^item> Mutation of \<open>this\<close> is explicit state passing: a method takes the shell (or the
    editor) and returns the updated one.
  \<^item> A JavaScript exception is a value: \<open>Thrown\<close> or \<open>Inl\<close> in the shell, \<open>Inl\<close> in
    the editor.
  \<^item> What the source asks of its host (the clock, the locale's collation, the regular
    expression engine on patterns outside the modelled fragment) is a parameter, the
    record \<open>Host\<close>.
\<close>

section \<open>JavaScript strings\<close>

definition startsWith :: "string \<Rightarrow> string \<Rightarrow> bool" where
  "startsWith s p = (take (length p) s = p)"

definition endsWith :: "string \<Rightarrow> string \<Rightarrow> bool" where
  "endsWith s p = (length p \<le> length s \<and> drop (length s - length p) s = p)"

text \<open>\<open>s.includes(p)\<close>: \<open>p\<close> occurs in \<open>s\<close> as a substring.\<close>

fun includes_str :: "string \<Rightarrow> string \<Rightarrow> bool" where
  "includes_str [] p = (p = [])"
| "includes_str (c # cs) p = (startsWith (c # cs) p \<or> includes_str cs p)"

text \<open>
  \<open>WhiteSpace\<close> and \<open>LineTerminator\<close> of ECMAScript within the code units 0..255:
  what \<open>trim\<close> strips and \<open>\s\<close> matches; \<open>.\<close> matches every code unit that is
  not a line terminator.
\<close>

definition isSpace :: "char \<Rightarrow> bool" where
  "isSpace c = (c = CHR 0x09 \<or> c = CHR 0x0A \<or> c = CHR 0x0B \<or> c = CHR 0x0C \<or> c = CHR 0x0D
     \<or> c = CHR 0x20 \<or> c = CHR 0xA0)"

definition isLineTerminator :: "char \<Rightarrow> bool" where
  "isLineTerminator c = (c = CHR 0x0A \<or> c = CHR 0x0D)"

definition trim :: "string \<Rightarrow> string" where
  "trim s = rev (dropWhile isSpace (rev (dropWhile isSpace s)))"

text \<open>\<open>s.split(d)\<close> for a one-character separator: never the empty list.\<close>

fun splitOn :: "char \<Rightarrow> string \<Rightarrow> string list" where
  "splitOn d [] = [[]]"
| "splitOn d (c # cs) =
     (if c = d then [] # splitOn d cs
      else (case splitOn d cs of [] \<Rightarrow> [[c]] | w # ws \<Rightarrow> (c # w) # ws))"

text \<open>\<open>xs.join(sep)\<close>.\<close>

fun join :: "string \<Rightarrow> string list \<Rightarrow> string" where
  "join sep [] = []"
| "join sep [x] = x"
| "join sep (x # y # ys) = x @ sep @ join sep (y # ys)"

text \<open>\<open>s.split(/\s+/)\<close>: the pieces between maximal runs of white space.\<close>

fun splitWsAux :: "string \<Rightarrow> bool \<Rightarrow> string \<Rightarrow> string list" where
  "splitWsAux cur inws [] = [rev cur]"
| "splitWsAux cur inws (c # cs) =
     (if isSpace c then (if inws then splitWsAux cur True cs else rev cur # splitWsAux [] True cs)
      else splitWsAux (c # cur) False cs)"

definition splitWs :: "string \<Rightarrow> string list" where
  "splitWs s = splitWsAux [] False s"

text \<open>
  \<open>toLowerCase\<close> on the code units 0..255: the letters A-Z and the Latin-1 capitals
  0xC0-0xDE (0xD7, the multiplication sign, apart) move up by 32.
\<close>

definition lowerChar :: "char \<Rightarrow> char" where
  "lowerChar c =
     (let n = (of_char c :: nat)
      in if (65 \<le> n \<and> n \<le> 90) \<or> (192 \<le> n \<and> n \<le> 222 \<and> n \<noteq> 215) then char_of (n + 32) else c)"

definition toLowerCase :: "string \<Rightarrow> string" where
  "toLowerCase s = map lowerChar s"

text \<open>\<open>String(n)\<close> for a non-negative integer: its decimal digits.\<close>

fun digitsRev :: "nat \<Rightarrow> string" where
  "digitsRev n = char_of (48 + n mod 10) # (if n < 10 then [] else digitsRev (n div 10))"

definition showNat :: "nat \<Rightarrow> string" where
  "showNat n = rev (digitsRev n)"

definition padStart :: "nat \<Rightarrow> string \<Rightarrow> string" where
  "padStart w s = replicate (w - length s) CHR '' '' @ s"

definition padEnd :: "nat \<Rightarrow> string \<Rightarrow> string" where
  "padEnd w s = s @ replicate (w - length s) CHR '' ''"

text \<open>
  \<open>text.replace(/^["']|["']$/g, '')\<close>: a quote character at the very start is removed,
  and then a quote character at the very end of what is left.
\<close>

definition isQuote :: "char \<Rightarrow> bool" where
  "isQuote c = (c = CHR 0x22 \<or> c = CHR 0x27)"

definition stripQuotes :: "string \<Rightarrow> string" where
  "stripQuotes s =
     (let s1 = (case s of [] \<Rightarrow> [] | c # cs \<Rightarrow> if isQuote c then cs else s)
      in if s1 \<noteq> [] \<and> isQuote (last s1) then butlast s1 else s1)"

text \<open>A stable insertion sort under a JavaScript comparator (negative: first argument first).\<close>

fun insertBy :: "('a \<Rightarrow> 'a \<Rightarrow> int) \<Rightarrow> 'a \<Rightarrow> 'a list \<Rightarrow> 'a list" where
  "insertBy cmp x [] = [x]"
| "insertBy cmp x (y # ys) = (if cmp y x \<le> 0 then y # insertBy cmp x ys else x # y # ys)"

definition sortBy :: "('a \<Rightarrow> 'a \<Rightarrow> int) \<Rightarrow> 'a list \<Rightarrow> 'a list" where
  "sortBy cmp xs = foldl (\<lambda>acc x. insertBy cmp x acc) [] xs"

text \<open>The default order of \<open>Array.prototype.sort\<close> on strings: by code units.\<close>

fun codeUnitCompare :: "string \<Rightarrow> string \<Rightarrow> int" where
  "codeUnitCompare [] [] = 0"
| "codeUnitCompare [] (b # bs) = -1"
| "codeUnitCompare (a # as) [] = 1"
| "codeUnitCompare (a # as) (b # bs) =
     (if (of_char a :: nat) < of_char b then -1
      else if (of_char b :: nat) < of_char a then 1
      else codeUnitCompare as bs)"

section \<open>The filesystem tree and the shell state\<close>

datatype FileSystemNode = File string | Directory "(string \<times> FileSystemNode) list"

type_synonym FileSystemDirectory = "(string \<times> FileSystemNode) list"

record Environment =
  USER :: string
  HOME :: string
  PWD :: string
  PATH :: string
  SHELL :: string

record UserState =
  user :: string
  home :: string
  path :: string

record GrepFlags =
  ignoreCase :: bool
  invert :: bool

text \<open>The handlers \<open>initializeCommands\<close> binds: the methods \<open>cmd_help\<close> to \<open>cmd_exit\<close>.\<close>

datatype Builtin =
    CmdHelp | CmdLs | CmdCd | CmdPwd | CmdCat | CmdEcho | CmdClear | CmdWhoami | CmdDate
  | CmdUname | CmdEnv | CmdHistory | CmdMkdir | CmdTouch | CmdRm | CmdTree | CmdPs | CmdVi
  | CmdVim | CmdSu | CmdSudo | CmdExit

text \<open>
  The fields of \<open>UnixShell\<close>. \<open>fileSystem\<close> is the directory stored under the key
  \<open>'/'\<close>. \<open>commands\<close> holds the own keys of the object \<open>this.commands\<close> with the
  handler stored under each; the handlers of the model are the built-ins (a custom
  command is code of the caller). \<open>localStorage\<close> is left out: \<open>saveToStorage\<close>
  changes no field.
\<close>

record UnixShell =
  fileSystem :: FileSystemDirectory
  currentUser :: string
  currentPath :: string
  environment :: Environment
  commandHistory :: "string list"
  userStack :: "UserState list"
  isPiped :: bool
  commands :: "(string \<times> Builtin) list"

text \<open>What the source takes from its JavaScript host.\<close>

record Host =
  dateString :: string
  localeDateString :: string
  localeCompare :: "string \<Rightarrow> string \<Rightarrow> int"
  regExpTest :: "string \<Rightarrow> string + (string \<Rightarrow> bool)"

subsection \<open>Own keys of an object\<close>

text \<open>
  \<open>Object.keys\<close> lists the keys that are array indices (canonical decimal numerals below
  \<open>2^32 - 1\<close>) first, in ascending numeric order, then the other keys in insertion order.
\<close>

definition isDigit :: "char \<Rightarrow> bool" where
  "isDigit c = (48 \<le> (of_char c :: nat) \<and> (of_char c :: nat) \<le> 57)"

definition digitsValue :: "string \<Rightarrow> nat" where
  "digitsValue s = foldl (\<lambda>acc c. 10 * acc + ((of_char c :: nat) - 48)) 0 s"

definition arrayIndex :: "string \<Rightarrow> nat option" where
  "arrayIndex s =
     (if s \<noteq> [] \<and> list_all isDigit s \<and> (s = ''0'' \<or> hd s \<noteq> CHR ''0'') \<and> length s \<le> 10
         \<and> digitsValue s < 4294967295
      then Some (digitsValue s) else None)"

definition indexCompare :: "string \<Rightarrow> string \<Rightarrow> int" where
  "indexCompare a b = int (digitsValue a) - int (digitsValue b)"

definition objectEntries :: "(string \<times> 'a) list \<Rightarrow> (string \<times> 'a) list" where
  "objectEntries es =
     sortBy (\<lambda>a b. indexCompare (fst a) (fst b)) (filter (\<lambda>kv. arrayIndex (fst kv) \<noteq> None) es)
     @ filter (\<lambda>kv. arrayIndex (fst kv) = None) es"

definition objectKeys :: "(string \<times> 'a) list \<Rightarrow> string list" where
  "objectKeys es = map fst (objectEntries es)"

text \<open>Own keys: the test for one, \<open>d[k] = v\<close> and \<open>delete d[k]\<close>.\<close>

definition hasKey :: "(string \<times> 'a) list \<Rightarrow> string \<Rightarrow> bool" where
  "hasKey es k = (map_of es k \<noteq> None)"

fun setKey :: "string \<Rightarrow> 'a \<Rightarrow> (string \<times> 'a) list \<Rightarrow> (string \<times> 'a) list" where
  "setKey k v [] = [(k, v)]"
| "setKey k v ((k', v') # es) = (if k' = k then (k, v) # es else (k', v') # setKey k v es)"

definition deleteKey :: "string \<Rightarrow> (string \<times> 'a) list \<Rightarrow> (string \<times> 'a) list" where
  "deleteKey k es = filter (\<lambda>kv. fst kv \<noteq> k) es"

subsection \<open>Inherited properties\<close>

text \<open>
  The properties of \<open>Object.prototype\<close> (ECMAScript, with its Annex B), which every
  plain object inherits. \<open>__proto__\<close> reads the prototype, which is \<open>Object.prototype\<close>
  for a plain object and \<open>null\<close> for \<open>Object.prototype\<close> itself; the others are native
  functions. None of them is enumerable: \<open>Object.keys\<close> and \<open>Object.entries\<close> of
  \<open>Object.prototype\<close> and of a native function are empty.
\<close>

definition inheritedNames :: "string list" where
  "inheritedNames =
     [''constructor'', ''__defineGetter__'', ''__defineSetter__'', ''hasOwnProperty'',
      ''__lookupGetter__'', ''__lookupSetter__'', ''isPrototypeOf'', ''propertyIsEnumerable'',
      ''toString'', ''valueOf'', ''__proto__'', ''toLocaleString'']"

definition inherited :: "string \<Rightarrow> bool" where
  "inherited k = (k \<in> set inheritedNames)"

text \<open>\<open>k in d\<close> for a plain object \<open>d\<close> with the own keys \<open>es\<close>.\<close>

definition hasProperty :: "(string \<times> 'a) list \<Rightarrow> string \<Rightarrow> bool" where
  "hasProperty es k = (hasKey es k \<or> inherited k)"

section \<open>Path resolver, node accessor, permission model\<close>

text \<open>\<open>p.split('/').filter((p) => p)\<close>: the non-empty segments.\<close>

definition pathParts :: "string \<Rightarrow> string list" where
  "pathParts p = filter (\<lambda>seg. seg \<noteq> []) (splitOn CHR ''/'' p)"

text \<open>
  One turn of the loop of \<open>resolvePath\<close>. \<open>parts.pop()\<close> on an empty array returns
  \<open>undefined\<close> and leaves the array empty: \<open>butlast [] = []\<close>.
\<close>

definition foldPart :: "string list \<Rightarrow> string \<Rightarrow> string list" where
  "foldPart parts part =
     (if part = ''..'' then butlast parts
      else if part \<noteq> ''.'' then parts @ [part]
      else parts)"

text \<open>No statement of \<open>resolvePath\<close> can throw, so its model returns a plain string.\<close>

definition resolvePath :: "UnixShell \<Rightarrow> string \<Rightarrow> string" where
  "resolvePath sh p0 =
     (let p = (if startsWith p0 ''~'' then HOME (environment sh) @ drop 1 p0 else p0)
      in if startsWith p ''/'' then p
         else ''/'' @ join ''/'' (foldl foldPart (pathParts (currentPath sh)) (pathParts p)))"

text \<open>
  What \<open>getNode\<close> can return: \<open>null\<close>, a node of the tree, or, reached through an
  inherited name, a native function or \<open>Object.prototype\<close>.
\<close>

datatype JsValue = Null | Node FileSystemNode | NativeFunction | ObjectPrototype

text \<open>
  The walk of \<open>getNode\<close>. A step is taken when the current value is truthy, has
  \<open>typeof\<close> \<open>'object'\<close> and has the segment as a property, own or inherited; any other
  step ends the walk with \<open>null\<close>. A string and a function are no \<open>'object'\<close>.
\<close>

fun walk :: "JsValue \<Rightarrow> string list \<Rightarrow> JsValue" where
  "walk v [] = v"
| "walk (Node (Directory es)) (seg # segs) =
     (case map_of es seg of
        Some n \<Rightarrow> walk (Node n) segs
      | None \<Rightarrow>
          (if seg = ''__proto__'' then walk ObjectPrototype segs
           else if inherited seg then walk NativeFunction segs
           else Null))"
| "walk ObjectPrototype (seg # segs) =
     (if seg = ''__proto__'' then walk Null segs
      else if inherited seg then walk NativeFunction segs
      else Null)"
| "walk (Node (File c)) (seg # segs) = Null"
| "walk NativeFunction (seg # segs) = Null"
| "walk Null (seg # segs) = Null"

definition getNode :: "UnixShell \<Rightarrow> string \<Rightarrow> JsValue" where
  "getNode sh p = walk (Node (Directory (fileSystem sh))) (pathParts (resolvePath sh p))"

definition getOwner :: "UnixShell \<Rightarrow> string \<Rightarrow> string \<times> string" where
  "getOwner sh p =
     (if startsWith p (''/home/'' @ currentUser sh) \<or> p = ''/home/'' @ currentUser sh
      then (currentUser sh, currentUser sh)
      else (''root'', ''root''))"

definition canWrite :: "UnixShell \<Rightarrow> string \<Rightarrow> bool" where
  "canWrite sh p =
     (if currentUser sh = ''root'' then True
      else startsWith (resolvePath sh p) (''/home/'' @ currentUser sh))"

text \<open>The object \<open>this.commands\<close> that \<open>initializeCommands\<close> builds, in insertion order.\<close>

definition initializeCommands :: "(string \<times> Builtin) list" where
  "initializeCommands =
     [(''help'', CmdHelp), (''ls'', CmdLs), (''cd'', CmdCd), (''pwd'', CmdPwd), (''cat'', CmdCat),
      (''echo'', CmdEcho), (''clear'', CmdClear), (''whoami'', CmdWhoami), (''date'', CmdDate),
      (''uname'', CmdUname), (''env'', CmdEnv), (''history'', CmdHistory), (''mkdir'', CmdMkdir),
      (''touch'', CmdTouch), (''rm'', CmdRm), (''tree'', CmdTree), (''ps'', CmdPs), (''vi'', CmdVi),
      (''vim'', CmdVim), (''su'', CmdSu), (''sudo'', CmdSudo), (''exit'', CmdExit)]"

text \<open>The constructor with no options but \<open>username\<close> and \<open>fileSystem\<close>.\<close>

definition createDefaultFileSystem :: "string \<Rightarrow> FileSystemDirectory" where
  "createDefaultFileSystem username =
     [(''home'', Directory [(username, Directory
         [(''README.md'', File (''# Welcome'' @ [CHR 0x0A, CHR 0x0A]
              @ ''This is a simple Unix shell emulator.'' @ [CHR 0x0A])),
          (''example.txt'', File (''This is an example file.'' @ [CHR 0x0A]))])]),
      (''etc'', Directory [(''hostname'', File (''localhost'' @ [CHR 0x0A]))]),
      (''tmp'', Directory [])]"

definition newShell :: "FileSystemDirectory option \<Rightarrow> string \<Rightarrow> UnixShell" where
  "newShell fs username =
     \<lparr> fileSystem = (case fs of None \<Rightarrow> createDefaultFileSystem username | Some d \<Rightarrow> d),
       currentUser = username,
       currentPath = ''/home/'' @ username,
       environment = \<lparr> USER = username, HOME = ''/home/'' @ username,
         PWD = ''/home/'' @ username, PATH = ''/usr/local/bin:/usr/bin:/bin'',
         SHELL = ''/bin/bash'' \<rparr>,
       commandHistory = [],
       userStack = [],
       isPiped = False,
       commands = initializeCommands \<rparr>"

section \<open>Regular expressions of the source\<close>

text \<open>
  The fragment of ECMAScript regular expressions the source uses with captures or
  backtracking: one-character classes, greedy and lazy quantifiers on them, sequence,
  capture groups and the two anchors. \<open>matcher\<close> follows the continuation semantics of
  the ECMAScript specification: a greedy quantifier tries the longest run first, a lazy
  one the shortest, and the first choice whose continuation succeeds wins.
\<close>

datatype CharClass = AnyChar | SpaceChar | NonSpaceChar | Literal char

fun classMatches :: "CharClass \<Rightarrow> char \<Rightarrow> bool" where
  "classMatches AnyChar c = (\<not> isLineTerminator c)"
| "classMatches SpaceChar c = isSpace c"
| "classMatches NonSpaceChar c = (\<not> isSpace c)"
| "classMatches (Literal l) c = (c = l)"

datatype RegExp =
    Atom CharClass
  | Repeat bool nat "nat option" CharClass
  | Seq RegExp RegExp
  | Group nat RegExp
  | Bol
  | Eol

type_synonym Captures = "(nat \<times> string) list"

type_synonym Continuation = "nat \<Rightarrow> Captures \<Rightarrow> (nat \<times> Captures) option"

fun firstSome :: "'a option list \<Rightarrow> 'a option" where
  "firstSome [] = None"
| "firstSome (None # xs) = firstSome xs"
| "firstSome (Some x # xs) = Some x"

primrec matcher :: "string \<Rightarrow> RegExp \<Rightarrow> Continuation \<Rightarrow> Continuation" where
  "matcher inp (Atom cl) k =
     (\<lambda>pos caps. if pos < length inp \<and> classMatches cl (inp ! pos) then k (Suc pos) caps else None)"
| "matcher inp (Repeat greedy mn mx cl) k =
     (\<lambda>pos caps.
        let run = length (takeWhile (classMatches cl) (drop pos inp));
            hi = (case mx of None \<Rightarrow> run | Some m \<Rightarrow> min m run);
            counts = (if greedy then rev [mn..<Suc hi] else [mn..<Suc hi])
        in firstSome (map (\<lambda>j. k (pos + j) caps) counts))"
| "matcher inp (Seq a b) k = matcher inp a (matcher inp b k)"
| "matcher inp (Group i r) k =
     (\<lambda>pos caps.
        matcher inp r (\<lambda>pos' caps'. k pos' ((i, take (pos' - pos) (drop pos inp)) # caps')) pos caps)"
| "matcher inp Bol k = (\<lambda>pos caps. if pos = 0 then k pos caps else None)"
| "matcher inp Eol k = (\<lambda>pos caps. if pos = length inp then k pos caps else None)"

text \<open>
  \<open>inp.match(r)\<close> for a pattern that starts with \<open>^\<close>: the only start position that
  can succeed is 0. The result holds the captures.
\<close>

definition regExpMatch :: "RegExp \<Rightarrow> string \<Rightarrow> Captures option" where
  "regExpMatch r inp = map_option snd (matcher inp r (\<lambda>pos caps. Some (pos, caps)) 0 [])"

definition capture :: "Captures \<Rightarrow> nat \<Rightarrow> string" where
  "capture caps i = (case map_of caps i of None \<Rightarrow> [] | Some g \<Rightarrow> g)"

definition seqs :: "RegExp list \<Rightarrow> RegExp" where
  "seqs rs = foldr Seq rs Eol"

text \<open>\<open>/^(.+?)\s*>>?\s*.+$/\<close>, \<open>/^(.+?)\s*>>\s*(.+)$/\<close> and \<open>/^(.+?)\s*>\s*(.+)$/\<close>.\<close>

definition grepRedirectRegExp :: RegExp where
  "grepRedirectRegExp =
     seqs [Bol, Group 1 (Repeat False 1 None AnyChar), Repeat True 0 None SpaceChar,
           Atom (Literal CHR ''>''), Repeat True 0 (Some 1) (Literal CHR ''>''),
           Repeat True 0 None SpaceChar, Repeat True 1 None AnyChar]"

definition appendRegExp :: RegExp where
  "appendRegExp =
     seqs [Bol, Group 1 (Repeat False 1 None AnyChar), Repeat True 0 None SpaceChar,
           Atom (Literal CHR ''>''), Atom (Literal CHR ''>''),
           Repeat True 0 None SpaceChar, Group 2 (Repeat True 1 None AnyChar)]"

definition overwriteRegExp :: RegExp where
  "overwriteRegExp =
     seqs [Bol, Group 1 (Repeat False 1 None AnyChar), Repeat True 0 None SpaceChar,
           Atom (Literal CHR ''>''),
           Repeat True 0 None SpaceChar, Group 2 (Repeat True 1 None AnyChar)]"

subsection \<open>The pattern built from a wildcard argument\<close>

text \<open>
  \<open>arg.replace(/\*/g, '.*').replace(/\?/g, '.')\<close> between \<open>^\<close> and \<open>$\<close>. The source
  escapes nothing, so every other character of the argument keeps the meaning it has for
  \<open>new RegExp\<close>.
\<close>

definition globSource :: "string \<Rightarrow> string" where
  "globSource arg =
     ''^'' @ concat (map (\<lambda>c. if c = CHR ''*'' then ''.*'' else if c = CHR ''?'' then ''.'' else [c]) arg)
     @ ''$''"

text \<open>The characters with a syntactic role in a pattern.\<close>

definition isSyntaxChar :: "char \<Rightarrow> bool" where
  "isSyntaxChar c = (c = CHR 0x5C \<or> c \<in> set ''^$.*+?()[]{}|'')"

text \<open>
  The modelled fragment: arguments made of \<open>*\<close>, \<open>?\<close>, \<open>.\<close> and characters without a
  syntactic role. There \<open>*\<close> is \<open>.*\<close>, \<open>?\<close> and \<open>.\<close> are \<open>.\<close>, any other
  character stands for itself.
\<close>

definition inGlobFragment :: "string \<Rightarrow> bool" where
  "inGlobFragment arg = list_all (\<lambda>c. c = CHR ''*'' \<or> c = CHR ''?'' \<or> c = CHR ''.'' \<or> \<not> isSyntaxChar c) arg"

definition globItem :: "char \<Rightarrow> RegExp" where
  "globItem c =
     (if c = CHR ''*'' then Repeat True 0 None AnyChar
      else if c = CHR ''?'' \<or> c = CHR ''.'' then Atom AnyChar
      else Atom (Literal c))"

definition globRegExp :: "string \<Rightarrow> RegExp" where
  "globRegExp arg = Seq Bol (seqs (map globItem arg))"

text \<open>
  An argument that lies in the fragment up to its first \<open>[\<close>, with no \<open>]\<close>, no backslash
  and no \<open>-\<close> after it, gives a pattern whose character class never ends:
  \<open>new RegExp\<close> throws a \<open>SyntaxError\<close> (the message is V8's).
\<close>

definition unterminatedClass :: "string \<Rightarrow> bool" where
  "unterminatedClass arg =
     (let cls = dropWhile (\<lambda>c. c \<noteq> CHR ''['') arg
      in inGlobFragment (takeWhile (\<lambda>c. c \<noteq> CHR ''['') arg) \<and> cls \<noteq> []
         \<and> CHR '']'' \<notin> set cls \<and> CHR 0x5C \<notin> set cls \<and> CHR ''-'' \<notin> set cls)"

text \<open>
  \<open>new RegExp(`^${pattern}$`)\<close> followed by \<open>regex.test\<close>: \<open>Inl\<close> is the message of the
  \<open>SyntaxError\<close>. Outside the fragment, and apart from the unterminated class, the host's
  engine decides.
\<close>

definition newGlobRegExp :: "Host \<Rightarrow> string \<Rightarrow> string + (string \<Rightarrow> bool)" where
  "newGlobRegExp h arg =
     (if inGlobFragment arg then Inr (\<lambda>name. regExpMatch (globRegExp arg) name \<noteq> None)
      else if unterminatedClass arg
      then Inl (''Invalid regular expression: /'' @ globSource arg @ ''/: Unterminated character class'')
      else regExpTest h (globSource arg))"

section \<open>The built-in commands\<close>

text \<open>
  How a call ends: it returns a value, or it throws (\<open>Thrown\<close> carries the message of
  the exception), or it has run a function of the runtime or assigned into
  \<open>Object.prototype\<close> (\<open>Foreign\<close>). A handler returns its display string.
\<close>

datatype 'a completion = Returned 'a | Thrown string | Foreign

type_synonym outcome = "string completion"

datatype RedirectMode = Append | Overwrite

definition nl :: string where
  "nl = [CHR 0x0A]"

definition sq :: string where
  "sq = [CHR 0x27]"

text \<open>\<open>!args[0]\<close>: no first argument, or an empty one.\<close>

definition noArg :: "string list \<Rightarrow> bool" where
  "noArg args = (case args of [] \<Rightarrow> True | a # _ \<Rightarrow> a = [])"

text \<open>
  \<open>parts.pop()\<close> together with the array it leaves. On an empty array the result is
  \<open>undefined\<close>, which as a property key is the string \<open>undefined\<close>.
\<close>

definition popParts :: "string list \<Rightarrow> string \<times> string list" where
  "popParts parts = (if parts = [] then (''undefined'', []) else (last parts, butlast parts))"

text \<open>
  A handler assigns into the object \<open>getNode\<close> returned. In the tree that is the
  replacement of the directory at the end of the same walk.
\<close>

fun modifyDir ::
  "string list \<Rightarrow> (FileSystemDirectory \<Rightarrow> FileSystemDirectory) \<Rightarrow> FileSystemNode \<Rightarrow> FileSystemNode" where
  "modifyDir [] f (Directory es) = Directory (f es)"
| "modifyDir [] f (File c) = File c"
| "modifyDir (seg # segs) f (File c) = File c"
| "modifyDir (seg # segs) f (Directory es) =
     (case map_of es seg of
        None \<Rightarrow> Directory es
      | Some n \<Rightarrow> Directory (setKey seg (modifyDir segs f n) es))"

definition updateDirectory ::
  "UnixShell \<Rightarrow> string \<Rightarrow> (FileSystemDirectory \<Rightarrow> FileSystemDirectory) \<Rightarrow> UnixShell" where
  "updateDirectory sh p f =
     (case modifyDir (pathParts (resolvePath sh p)) f (Directory (fileSystem sh)) of
        Directory es \<Rightarrow> sh\<lparr>fileSystem := es\<rparr>
      | File c \<Rightarrow> sh)"

text \<open>
  \<open>typeof d[name] === 'object'\<close> for a directory \<open>d\<close> with the own keys \<open>es\<close>: of
  the inherited properties only \<open>__proto__\<close> is an object.
\<close>

definition isDir :: "FileSystemDirectory \<Rightarrow> string \<Rightarrow> bool" where
  "isDir es name =
     (case map_of es name of
        Some (Directory d) \<Rightarrow> True
      | Some (File c) \<Rightarrow> False
      | None \<Rightarrow> name = ''__proto__'')"

subsection \<open>writeToFile\<close>

text \<open>
  The result is the error string or \<open>None\<close> for \<open>null\<close>. \<open>!parent\<close> holds of \<open>null\<close>
  and of the empty string, an empty file. No permission check is made here. Under an
  inherited name that is a function, overwriting creates an own key; appending would
  prepend the runtime's text of the function. \<open>typeof null\<close> is \<open>'object'\<close>, which
  is what \<open>__proto__\<close> reads on \<open>Object.prototype\<close>.
\<close>

definition writeToFile ::
  "UnixShell \<Rightarrow> string \<Rightarrow> string \<Rightarrow> RedirectMode \<Rightarrow> string option completion \<times> UnixShell" where
  "writeToFile sh filePath content mode =
     (let fullPath = resolvePath sh filePath;
          fileName = fst (popParts (pathParts fullPath));
          parentPath = ''/'' @ join ''/'' (snd (popParts (pathParts fullPath)))
      in case getNode sh parentPath of
           Null \<Rightarrow> (Returned (Some (''bash: '' @ filePath @ '': No such file or directory'')), sh)
         | Node (File c) \<Rightarrow>
             (if c = [] then (Returned (Some (''bash: '' @ filePath @ '': No such file or directory'')), sh)
              else (Returned (Some (''bash: '' @ filePath @ '': Not a directory'')), sh))
         | NativeFunction \<Rightarrow> (Returned (Some (''bash: '' @ filePath @ '': Not a directory'')), sh)
         | ObjectPrototype \<Rightarrow>
             (if fileName = ''__proto__''
              then (Returned (Some (''bash: '' @ filePath @ '': Is a directory'')), sh)
              else (Foreign, sh))
         | Node (Directory es) \<Rightarrow>
             (case map_of es fileName of
                Some (Directory d) \<Rightarrow> (Returned (Some (''bash: '' @ filePath @ '': Is a directory'')), sh)
              | Some (File old) \<Rightarrow>
                  (Returned None, updateDirectory sh parentPath
                     (setKey fileName (File (if mode = Append then old @ content else content))))
              | None \<Rightarrow>
                  (if fileName = ''__proto__''
                   then (Returned (Some (''bash: '' @ filePath @ '': Is a directory'')), sh)
                   else if inherited fileName \<and> mode = Append then (Foreign, sh)
                   else (Returned None, updateDirectory sh parentPath (setKey fileName (File content))))))"

subsection \<open>Handlers that read the state\<close>

definition cmd_help :: "UnixShell \<Rightarrow> string" where
  "cmd_help sh =
     ''Available commands:'' @ nl
     @ join nl (map (\<lambda>cmd. ''  '' @ cmd) (sortBy codeUnitCompare (objectKeys (commands sh))))
     @ nl @ nl @ ''Type any command to try it out!''"

text \<open>\<open>Math.round(n / d)\<close> for non-negative integers: halves round up.\<close>

definition roundDiv :: "nat \<Rightarrow> nat \<Rightarrow> nat" where
  "roundDiv n d = (2 * n + d) div (2 * d)"

definition lsCompare :: "Host \<Rightarrow> FileSystemDirectory \<Rightarrow> string \<Rightarrow> string \<Rightarrow> int" where
  "lsCompare h es a b =
     (if isDir es a \<and> \<not> isDir es b then -1
      else if \<not> isDir es a \<and> isDir es b then 1
      else localeCompare h a b)"

definition lsSize :: "FileSystemDirectory \<Rightarrow> bool \<Rightarrow> string \<Rightarrow> string" where
  "lsSize es humanReadable name =
     (case map_of es name of
        Some (File c) \<Rightarrow>
          (let bytes = length c
           in if humanReadable
              then (if bytes < 1024 then showNat bytes @ ''B''
                    else if bytes < 1024 * 1024 then showNat (roundDiv bytes 1024) @ ''K''
                    else showNat (roundDiv bytes (1024 * 1024)) @ ''M'')
              else showNat bytes)
      | _ \<Rightarrow> ''4096'')"

definition lsLong :: "Host \<Rightarrow> UnixShell \<Rightarrow> string \<Rightarrow> FileSystemDirectory \<Rightarrow> bool \<Rightarrow> string \<Rightarrow> string" where
  "lsLong h sh p es humanReadable name =
     (let perms = (if isDir es name then ''drwxr-xr-x'' else ''-rw-r--r--'');
          links = (if isDir es name then ''2'' else ''1'');
          filePath = (if p = ''/'' then ''/'' @ name else p @ ''/'' @ name);
          owner = getOwner sh filePath
      in perms @ '' '' @ links @ '' '' @ padEnd 8 (fst owner) @ '' '' @ padEnd 8 (snd owner) @ '' ''
         @ padStart (if humanReadable then 5 else 8) (lsSize es humanReadable name) @ '' ''
         @ localeDateString h @ '' '' @ name)"

text \<open>
  One turn of the loop over \<open>targetPaths\<close>: what it pushes onto \<open>results\<close>, if
  anything. A value without enumerable keys is passed over like an empty directory.
\<close>

definition lsTarget :: "Host \<Rightarrow> UnixShell \<Rightarrow> bool \<Rightarrow> bool \<Rightarrow> bool \<Rightarrow> string \<Rightarrow> string list" where
  "lsTarget h sh showHidden longFormat humanReadable targetPath =
     (let p = (if targetPath = ''.'' then currentPath sh else resolvePath sh targetPath)
      in case getNode sh p of
           Null \<Rightarrow> [''ls: cannot access '' @ sq @ targetPath @ sq @ '': No such file or directory'']
         | Node (File c) \<Rightarrow> [targetPath]
         | NativeFunction \<Rightarrow> []
         | ObjectPrototype \<Rightarrow> []
         | Node (Directory es) \<Rightarrow>
             (let entries = (if showHidden then objectKeys es
                             else filter (\<lambda>name. \<not> startsWith name ''.'') (objectKeys es))
              in if entries = [] then []
                 else if longFormat
                 then [join nl (map (lsLong h sh p es humanReadable) (sortBy (lsCompare h es) entries))]
                 else [join (if isPiped sh then nl else ''    '')
                         (map (\<lambda>name. if isDir es name then name @ ''/'' else name)
                            (sortBy (lsCompare h es) entries))]))"

definition lsFlag :: "string list \<Rightarrow> char \<Rightarrow> bool" where
  "lsFlag args c = list_ex (\<lambda>a. startsWith a ''-'' \<and> c \<in> set a) args"

definition cmd_ls :: "Host \<Rightarrow> UnixShell \<Rightarrow> string list \<Rightarrow> string" where
  "cmd_ls h sh args =
     (let targets = filter (\<lambda>a. \<not> startsWith a ''-'') args;
          targetPaths = (if targets = [] then [currentPath sh] else targets)
      in join nl (concat (map (lsTarget h sh (lsFlag args CHR ''a'') (lsFlag args CHR ''l'')
                                  (lsFlag args CHR ''h'')) targetPaths)))"

definition cmd_pwd :: "UnixShell \<Rightarrow> string" where
  "cmd_pwd sh = currentPath sh"

definition cmd_cat :: "UnixShell \<Rightarrow> string list \<Rightarrow> string" where
  "cmd_cat sh args =
     (if noArg args then ''cat: missing file operand''
      else case getNode sh (hd args) of
             Null \<Rightarrow> ''cat: '' @ hd args @ '': No such file or directory''
           | Node (File c) \<Rightarrow> c
           | _ \<Rightarrow> ''cat: '' @ hd args @ '': Is a directory'')"

definition cmd_echo :: "string list \<Rightarrow> string" where
  "cmd_echo args = stripQuotes (join '' '' args)"

definition cmd_clear :: string where
  "cmd_clear = ''__CLEAR__''"

definition cmd_whoami :: "UnixShell \<Rightarrow> string" where
  "cmd_whoami sh = USER (environment sh)"

definition cmd_date :: "Host \<Rightarrow> string" where
  "cmd_date h = dateString h"

definition cmd_uname :: "string list \<Rightarrow> string" where
  "cmd_uname args =
     (if ''-a'' \<in> set args then ''UnixShell 1.0.0 UnixShell Terminal x86_64 GNU/JavaScript''
      else ''UnixShell'')"

definition cmd_env :: "UnixShell \<Rightarrow> string" where
  "cmd_env sh =
     join nl [''USER='' @ USER (environment sh), ''HOME='' @ HOME (environment sh),
              ''PWD='' @ PWD (environment sh), ''PATH='' @ PATH (environment sh),
              ''SHELL='' @ SHELL (environment sh)]"

definition cmd_history :: "UnixShell \<Rightarrow> string" where
  "cmd_history sh =
     join nl (map (\<lambda>ic. showNat (fst ic + 1) @ ''  '' @ snd ic)
                (zip [0..<length (commandHistory sh)] (commandHistory sh)))"

definition psLine :: "nat \<Rightarrow> string \<Rightarrow> string \<Rightarrow> string \<Rightarrow> string" where
  "psLine pid tty time cmd =
     padStart 5 (showNat pid) @ '' '' @ padEnd 12 tty @ '' '' @ padStart 8 time @ '' '' @ cmd @ nl"

definition cmd_ps :: string where
  "cmd_ps =
     ''  PID TTY          TIME CMD'' @ nl
     @ psLine 1 ''?'' ''0:01'' ''init''
     @ psLine 100 ''pts/0'' ''0:00'' ''bash''
     @ psLine 101 ''pts/0'' ''0:00'' ''ps''"

text \<open>
  \<open>cmd_tree\<close>. The source draws with the box characters U+2514, U+251C, U+2500 and
  U+2502, which are not among the code units 0..255; the model writes \<open>`\<close>, \<open>|\<close> and
  \<open>-\<close> in their place. \<open>renderNode\<close> gives, for a node, whether it is a directory and
  what \<open>buildTree\<close> prints for it under a prefix \<open>pfx\<close>. \<open>Object.entries\<close> of a string lists
  its characters under their indices, and of \<open>null\<close> throws a \<open>TypeError\<close> (the message
  is V8's).
\<close>

definition treeLines :: "string \<Rightarrow> (string \<times> bool \<times> (string \<Rightarrow> string)) list \<Rightarrow> string" where
  "treeLines pfx entries =
     concat (map (\<lambda>ie.
         (let isLastEntry = (fst ie = length entries - 1);
              name = fst (snd ie);
              dir = fst (snd (snd ie));
              sub = snd (snd (snd ie))
          in pfx @ (if isLastEntry then ''`-- '' else ''|-- '') @ name
             @ (if dir then ''/'' @ nl else nl)
             @ (if dir then sub (pfx @ (if isLastEntry then ''    '' else ''|   '')) else [])))
       (zip [0..<length entries] entries))"

primrec renderNode :: "FileSystemNode \<Rightarrow> bool \<times> (string \<Rightarrow> string)" where
  "renderNode (File c) = (False, \<lambda>pfx. [])"
| "renderNode (Directory es) =
     (True, \<lambda>pfx. treeLines pfx (objectEntries (map (map_prod id renderNode) es)))"

definition cmd_tree :: "UnixShell \<Rightarrow> outcome" where
  "cmd_tree sh =
     (case getNode sh (currentPath sh) of
        Null \<Rightarrow> Thrown ''Cannot convert undefined or null to object''
      | Node (File c) \<Rightarrow>
          Returned (currentPath sh @ ''/'' @ nl
            @ treeLines [] (map (\<lambda>i. (showNat i, False, \<lambda>pfx. [])) [0..<length c]))
      | Node (Directory es) \<Rightarrow>
          Returned (currentPath sh @ ''/'' @ nl @ snd (renderNode (Directory es)) [])
      | _ \<Rightarrow> Returned (currentPath sh @ ''/'' @ nl))"

text \<open>
  \<open>openEditor\<close> reads the file and hands it to the host's \<open>ViEditor\<close>; no field of the
  shell changes.
\<close>

definition openEditor :: "UnixShell \<Rightarrow> string \<Rightarrow> string" where
  "openEditor sh filename = ''__VI_OPENED__''"

subsection \<open>Handlers that change the state\<close>

definition cmd_cd :: "UnixShell \<Rightarrow> string list \<Rightarrow> string \<times> UnixShell" where
  "cmd_cd sh args =
     (if noArg args
      then ([], sh\<lparr>currentPath := HOME (environment sh),
                   environment := (environment sh)\<lparr>PWD := HOME (environment sh)\<rparr>\<rparr>)
      else (let newPath = resolvePath sh (hd args)
            in case getNode sh newPath of
                 Null \<Rightarrow> (''cd: '' @ hd args @ '': No such file or directory'', sh)
               | Node (File c) \<Rightarrow> (''cd: '' @ hd args @ '': Not a directory'', sh)
               | _ \<Rightarrow>
                   ([], sh\<lparr>currentPath := newPath,
                          environment := (environment sh)\<lparr>PWD := newPath\<rparr>\<rparr>)))"

text \<open>
  \<open>cmd_mkdir\<close> and \<open>cmd_touch\<close>. \<open>typeof parent !== 'object'\<close> holds of a file and
  of a function. With \<open>Object.prototype\<close> as the parent a new name would become a
  property of every object.
\<close>

definition cmd_mkdir :: "UnixShell \<Rightarrow> string list \<Rightarrow> outcome \<times> UnixShell" where
  "cmd_mkdir sh args =
     (if noArg args then (Returned ''mkdir: missing operand'', sh)
      else (let p = resolvePath sh (hd args);
                dirName = fst (popParts (pathParts p));
                parentPath = ''/'' @ join ''/'' (snd (popParts (pathParts p)));
                msg = (\<lambda>reason. ''mkdir: cannot create directory '' @ sq @ hd args @ sq @ '': '' @ reason)
            in if \<not> canWrite sh p then (Returned (msg ''Permission denied''), sh)
               else case getNode sh parentPath of
                      Null \<Rightarrow> (Returned (msg ''No such file or directory''), sh)
                    | Node (File c) \<Rightarrow>
                        (if c = [] then (Returned (msg ''No such file or directory''), sh)
                         else (Returned (msg ''Not a directory''), sh))
                    | NativeFunction \<Rightarrow> (Returned (msg ''Not a directory''), sh)
                    | ObjectPrototype \<Rightarrow>
                        (if inherited dirName then (Returned (msg ''File exists''), sh)
                         else (Foreign, sh))
                    | Node (Directory es) \<Rightarrow>
                        (if hasProperty es dirName then (Returned (msg ''File exists''), sh)
                         else (Returned [], updateDirectory sh parentPath (setKey dirName (Directory []))))))"

definition cmd_touch :: "UnixShell \<Rightarrow> string list \<Rightarrow> outcome \<times> UnixShell" where
  "cmd_touch sh args =
     (if noArg args then (Returned ''touch: missing file operand'', sh)
      else (let p = resolvePath sh (hd args);
                fileName = fst (popParts (pathParts p));
                parentPath = ''/'' @ join ''/'' (snd (popParts (pathParts p)));
                msg = (\<lambda>reason. ''touch: cannot touch '' @ sq @ hd args @ sq @ '': '' @ reason)
            in if \<not> canWrite sh p then (Returned (msg ''Permission denied''), sh)
               else case getNode sh parentPath of
                      Null \<Rightarrow> (Returned (msg ''No such file or directory''), sh)
                    | Node (File c) \<Rightarrow>
                        (if c = [] then (Returned (msg ''No such file or directory''), sh)
                         else (Returned (msg ''Not a directory''), sh))
                    | NativeFunction \<Rightarrow> (Returned (msg ''Not a directory''), sh)
                    | ObjectPrototype \<Rightarrow>
                        (if inherited fileName then (Returned [], sh) else (Foreign, sh))
                    | Node (Directory es) \<Rightarrow>
                        (if hasProperty es fileName then (Returned [], sh)
                         else (Returned [], updateDirectory sh parentPath (setKey fileName (File []))))))"

text \<open>
  One turn of the loop of \<open>cmd_rm\<close> over its targets. The loop state is the shell with
  the lists \<open>errors\<close> and \<open>removed\<close>, and a flag that is raised when a turn deletes a
  property of \<open>Object.prototype\<close>; the turns after that are not described. \<open>delete\<close>
  of an inherited name leaves the directory as it is.
\<close>

definition rmTarget ::
  "bool \<Rightarrow> bool \<Rightarrow> bool \<Rightarrow> UnixShell \<times> string list \<times> string list \<times> bool \<Rightarrow> string
     \<Rightarrow> UnixShell \<times> string list \<times> string list \<times> bool" where
  "rmTarget recursive force verbose st target =
     (let sh = fst st; errors = fst (snd st); removed = fst (snd (snd st));
          p = resolvePath sh target;
          fileName = fst (popParts (pathParts p));
          parentPath = ''/'' @ join ''/'' (snd (popParts (pathParts p)));
          msg = (\<lambda>reason. ''rm: cannot remove '' @ sq @ target @ sq @ '': '' @ reason);
          missing = (if force then st else (sh, errors @ [msg ''No such file or directory''], removed, False));
          isDirectory = (if force then st else (sh, errors @ [msg ''Is a directory''], removed, False))
      in if snd (snd (snd st)) then st
         else if \<not> canWrite sh parentPath then (sh, errors @ [msg ''Permission denied''], removed, False)
         else case getNode sh parentPath of
                Node (Directory es) \<Rightarrow>
                  (if \<not> hasProperty es fileName then missing
                   else if isDir es fileName \<and> \<not> recursive then isDirectory
                   else (updateDirectory sh parentPath (deleteKey fileName), errors,
                         (if verbose then removed @ [''removed '' @ sq @ target @ sq] else removed), False))
              | ObjectPrototype \<Rightarrow>
                  (if \<not> inherited fileName then missing
                   else if fileName = ''__proto__'' \<and> \<not> recursive then isDirectory
                   else (sh, errors, removed, True))
              | _ \<Rightarrow> missing)"

definition cmd_rm :: "UnixShell \<Rightarrow> string list \<Rightarrow> outcome \<times> UnixShell" where
  "cmd_rm sh args =
     (if noArg args then (Returned ''rm: missing operand'', sh)
      else (let flags = filter (\<lambda>a. startsWith a ''-'') args;
                recursive = list_ex (\<lambda>a. CHR ''r'' \<in> set a \<or> CHR ''R'' \<in> set a) flags;
                force = list_ex (\<lambda>a. CHR ''f'' \<in> set a) flags;
                verbose = list_ex (\<lambda>a. CHR ''v'' \<in> set a) flags;
                targets = filter (\<lambda>a. \<not> startsWith a ''-'') args
            in if targets = [] then (Returned ''rm: missing operand'', sh)
               else (let st = foldl (rmTarget recursive force verbose) (sh, [], [], False) targets;
                         errors = fst (snd st);
                         removed = fst (snd (snd st));
                         output = (if verbose \<and> removed \<noteq> [] then join nl removed else [])
                     in if snd (snd (snd st)) then (Foreign, fst st)
                        else (Returned (if errors \<noteq> []
                                        then (if output \<noteq> [] then output @ nl else output) @ join nl errors
                                        else output),
                              fst st))))"

definition cmd_su :: "UnixShell \<Rightarrow> string list \<Rightarrow> string \<times> UnixShell" where
  "cmd_su sh args =
     (let targetUser = (if noArg args then ''root'' else hd args)
      in (''__USER_SWITCHED__:'' @ targetUser,
          sh\<lparr>userStack := userStack sh
                 @ [\<lparr>user = currentUser sh, home = HOME (environment sh), path = currentPath sh\<rparr>],
             currentUser := targetUser,
             environment := (environment sh)
               \<lparr>USER := targetUser,
                HOME := (if targetUser = ''root'' then ''/root'' else ''/home/'' @ targetUser),
                PWD := currentPath sh\<rparr>\<rparr>))"

definition cmd_exit :: "UnixShell \<Rightarrow> string \<times> UnixShell" where
  "cmd_exit sh =
     (if userStack sh = [] then (''exit: no other user session to return to'', sh)
      else (let previousUser = last (userStack sh)
            in (''__USER_SWITCHED__:'' @ user previousUser,
                sh\<lparr>userStack := butlast (userStack sh),
                   currentUser := user previousUser,
                   currentPath := path previousUser,
                   environment := (environment sh)
                     \<lparr>USER := user previousUser, HOME := home previousUser,
                      PWD := path previousUser\<rparr>\<rparr>)))"

text \<open>
  \<open>this.commands[command](args)\<close> for a name that is no own key of the table but an
  inherited one: \<open>toString\<close> and \<open>toLocaleString\<close> of a plain object return
  \<open>[object Object]\<close>; the other names run the runtime's functions on the table.
\<close>

definition callInherited :: "string \<Rightarrow> outcome" where
  "callInherited name =
     (if name = ''toString'' \<or> name = ''toLocaleString'' then Returned ''[object Object]''
      else Foreign)"

text \<open>
  The call of a handler. \<open>cmd_sudo\<close> runs \<open>cmd_su\<close> itself when its first argument is
  \<open>su\<close>; otherwise it looks the argument up in \<open>this.commands\<close> (with \<open>in\<close>) and calls
  what it finds with the remaining arguments. With no argument the name it looks up and
  reports is \<open>undefined\<close>; were \<open>cmd_sudo\<close> itself stored under that name, the calls
  would nest until the stack is used up (the message is V8's).
\<close>

function invoke :: "Host \<Rightarrow> Builtin \<Rightarrow> string list \<Rightarrow> UnixShell \<Rightarrow> outcome \<times> UnixShell" where
  "invoke h CmdSudo [] sh =
     (case map_of (commands sh) ''undefined'' of
        None \<Rightarrow> (Returned ''sudo: undefined: command not found'', sh)
      | Some b \<Rightarrow>
          (if b = CmdSudo then (Thrown ''Maximum call stack size exceeded'', sh)
           else invoke h b [] sh))"
| "invoke h CmdSudo (a # rest) sh =
     (if a = ''su'' then (Returned (fst (cmd_su sh rest)), snd (cmd_su sh rest))
      else case map_of (commands sh) a of
             None \<Rightarrow>
               (if inherited a then (callInherited a, sh)
                else (Returned (''sudo: '' @ a @ '': command not found''), sh))
           | Some b \<Rightarrow> invoke h b rest sh)"
| "invoke h CmdHelp args sh = (Returned (cmd_help sh), sh)"
| "invoke h CmdLs args sh = (Returned (cmd_ls h sh args), sh)"
| "invoke h CmdCd args sh = (Returned (fst (cmd_cd sh args)), snd (cmd_cd sh args))"
| "invoke h CmdPwd args sh = (Returned (cmd_pwd sh), sh)"
| "invoke h CmdCat args sh = (Returned (cmd_cat sh args), sh)"
| "invoke h CmdEcho args sh = (Returned (cmd_echo args), sh)"
| "invoke h CmdClear args sh = (Returned cmd_clear, sh)"
| "invoke h CmdWhoami args sh = (Returned (cmd_whoami sh), sh)"
| "invoke h CmdDate args sh = (Returned (cmd_date h), sh)"
| "invoke h CmdUname args sh = (Returned (cmd_uname args), sh)"
| "invoke h CmdEnv args sh = (Returned (cmd_env sh), sh)"
| "invoke h CmdHistory args sh = (Returned (cmd_history sh), sh)"
| "invoke h CmdMkdir args sh = cmd_mkdir sh args"
| "invoke h CmdTouch args sh = cmd_touch sh args"
| "invoke h CmdRm args sh = cmd_rm sh args"
| "invoke h CmdTree args sh = (cmd_tree sh, sh)"
| "invoke h CmdPs args sh = (Returned cmd_ps, sh)"
| "invoke h CmdVi args sh = (Returned (openEditor sh (if noArg args then ''untitled'' else hd args)), sh)"
| "invoke h CmdVim args sh = (Returned (openEditor sh (if noArg args then ''untitled'' else hd args)), sh)"
| "invoke h CmdSu args sh = (Returned (fst (cmd_su sh args)), snd (cmd_su sh args))"
| "invoke h CmdExit args sh = (Returned (fst (cmd_exit sh)), snd (cmd_exit sh))"
  by pat_completeness auto

termination invoke
  by (relation "measure (\<lambda>x. 2 * length (fst (snd (snd x))) + (if fst (snd x) = CmdSudo then 1 else 0))") auto

text \<open>
  \<open>command in this.commands\<close> followed by \<open>this.commands[command](args)\<close>, as
  \<open>execute\<close> has them: \<open>None\<close> when the name is no property of the table.
\<close>

definition callCommand ::
  "Host \<Rightarrow> UnixShell \<Rightarrow> string \<Rightarrow> string list \<Rightarrow> (outcome \<times> UnixShell) option" where
  "callCommand h sh command args =
     (case map_of (commands sh) command of
        Some b \<Rightarrow> Some (invoke h b args sh)
      | None \<Rightarrow> (if inherited command then Some (callInherited command, sh) else None))"

section \<open>The command pipeline\<close>

subsection \<open>Wildcard expansion\<close>

text \<open>
  \<open>expandWildcards\<close>: \<open>Inl\<close> is the \<open>SyntaxError\<close> of \<open>new RegExp\<close>, which nothing
  catches. The names tested are the keys of the current directory, in the order of
  \<open>Object.keys\<close>; \<open>Object.prototype\<close> has none to test.
\<close>

definition hasWildcard :: "string \<Rightarrow> bool" where
  "hasWildcard arg = (CHR ''*'' \<in> set arg \<or> CHR ''?'' \<in> set arg)"

definition expandArg :: "Host \<Rightarrow> UnixShell \<Rightarrow> string \<Rightarrow> string + string list" where
  "expandArg h sh arg =
     (if hasWildcard arg
      then (case getNode sh (currentPath sh) of
              Node (Directory es) \<Rightarrow>
                (case newGlobRegExp h arg of
                   Inl msg \<Rightarrow> Inl msg
                 | Inr test \<Rightarrow>
                     (let matches = filter test (objectKeys es)
                      in if matches \<noteq> [] then Inr matches else Inr [arg]))
            | ObjectPrototype \<Rightarrow>
                (case newGlobRegExp h arg of
                   Inl msg \<Rightarrow> Inl msg
                 | Inr test \<Rightarrow> Inr [arg])
            | _ \<Rightarrow> Inr [arg])
      else Inr [arg])"

fun expandWildcards :: "Host \<Rightarrow> UnixShell \<Rightarrow> string list \<Rightarrow> string + string list" where
  "expandWildcards h sh [] = Inr []"
| "expandWildcards h sh (arg # args) =
     (case expandArg h sh arg of
        Inl msg \<Rightarrow> Inl msg
      | Inr expanded \<Rightarrow>
          (case expandWildcards h sh args of
             Inl msg \<Rightarrow> Inl msg
           | Inr others \<Rightarrow> Inr (expanded @ others)))"

subsection \<open>Pipe to grep\<close>

text \<open>
  \<open>grepArgs.match(/(?:[^\s"']+|"[^"]*"|'[^']*')+/g)\<close>: a token is a longest run of
  pieces, a piece being a run of characters that are neither white space nor quotes, or
  a quoted stretch with its closing quote. A quote that is never closed ends the token
  and is skipped.
\<close>

datatype ScanMode = Plain | InDouble | InSingle

fun grepScan :: "ScanMode \<Rightarrow> string \<Rightarrow> string \<Rightarrow> string list" where
  "grepScan m cur [] = (if cur = [] then [] else [rev cur])"
| "grepScan Plain cur (c # cs) =
     (if c = CHR 0x22 \<and> CHR 0x22 \<in> set cs then grepScan InDouble (c # cur) cs
      else if c = CHR 0x27 \<and> CHR 0x27 \<in> set cs then grepScan InSingle (c # cur) cs
      else if isSpace c \<or> isQuote c
      then (if cur = [] then [] else [rev cur]) @ grepScan Plain [] cs
      else grepScan Plain (c # cur) cs)"
| "grepScan InDouble cur (c # cs) =
     (if c = CHR 0x22 then grepScan Plain (c # cur) cs else grepScan InDouble (c # cur) cs)"
| "grepScan InSingle cur (c # cs) =
     (if c = CHR 0x27 then grepScan Plain (c # cur) cs else grepScan InSingle (c # cur) cs)"

definition grepTokens :: "string \<Rightarrow> string list" where
  "grepTokens s = grepScan Plain [] s"

text \<open>
  One turn of the loop over \<open>grepParts\<close>. \<open>!grepPattern\<close> holds of \<open>null\<close> and of the
  empty string.
\<close>

definition grepPart :: "string option \<times> GrepFlags \<Rightarrow> string \<Rightarrow> string option \<times> GrepFlags" where
  "grepPart st part =
     (if part = ''-i'' then (fst st, (snd st)\<lparr>ignoreCase := True\<rparr>)
      else if part = ''-v'' then (fst st, (snd st)\<lparr>invert := True\<rparr>)
      else if fst st = None \<or> fst st = Some [] then (Some (stripQuotes part), snd st)
      else st)"

text \<open>
  The first stage of \<open>execute\<close>. The result holds the tokens \<open>grepParts\<close> (none when
  no grep was detected), \<open>grepPattern\<close>, \<open>grepFlags\<close>, \<open>actualCommand\<close> and the
  rewritten \<open>commandLine\<close>.
\<close>

record PipeStage =
  grepParts :: "string list"
  grepPattern :: "string option"
  grepFlags :: GrepFlags
  actualCommand :: string
  restLine :: string

definition pipeStage :: "string \<Rightarrow> PipeStage" where
  "pipeStage commandLine =
     (let none = \<lparr>grepParts = [], grepPattern = None,
                  grepFlags = \<lparr>ignoreCase = False, invert = False\<rparr>,
                  actualCommand = commandLine, restLine = commandLine\<rparr>
      in if CHR ''|'' \<notin> set commandLine then none
         else (let beforePipe = trim (takeWhile (\<lambda>c. c \<noteq> CHR ''|'') commandLine);
                   afterPipe = trim (drop 1 (dropWhile (\<lambda>c. c \<noteq> CHR ''|'') commandLine))
               in if startsWith afterPipe ''grep '' \<or> afterPipe = ''grep''
                  then (let grepCommand = trim (drop 4 afterPipe);
                            redirectMatch = regExpMatch grepRedirectRegExp grepCommand;
                            grepArgs = (case redirectMatch of None \<Rightarrow> grepCommand
                                        | Some m \<Rightarrow> trim (capture m 1));
                            st = foldl grepPart (None, \<lparr>ignoreCase = False, invert = False\<rparr>)
                                   (grepTokens grepArgs)
                        in \<lparr>grepParts = grepTokens grepArgs, grepPattern = fst st,
                            grepFlags = snd st, actualCommand = beforePipe,
                            restLine = (case redirectMatch of None \<Rightarrow> commandLine
                                        | Some m \<Rightarrow> beforePipe @ '' '' @ drop (length grepArgs) grepCommand)\<rparr>)
                  else none))"

text \<open>
  The grep filter of \<open>execute\<close>, applied when \<open>grepPattern !== null && output\<close>: an
  empty output is left as it is.
\<close>

definition grepKeeps :: "string \<Rightarrow> GrepFlags \<Rightarrow> string \<Rightarrow> bool" where
  "grepKeeps pat flags line =
     (let matches = (if ignoreCase flags then includes_str (toLowerCase line) (toLowerCase pat)
                     else includes_str line pat)
      in if invert flags then \<not> matches else matches)"

definition applyGrep :: "string \<Rightarrow> GrepFlags \<Rightarrow> string \<Rightarrow> string" where
  "applyGrep pat flags output =
     (if output = [] then output
      else (let filtered = join nl (filter (grepKeeps pat flags) (splitOn CHR 0x0A output))
            in if endsWith filtered (nl @ nl) then butlast filtered else filtered))"

subsection \<open>Redirect detection\<close>

text \<open>
  The second stage: \<open>None\<close> when neither pattern matches, else the mode, the trimmed
  target and the new \<open>actualCommand\<close>.
\<close>

definition redirectStage :: "string \<Rightarrow> (RedirectMode \<times> string \<times> string) option" where
  "redirectStage commandLine =
     (case regExpMatch appendRegExp commandLine of
        Some m \<Rightarrow> Some (Append, trim (capture m 2), trim (capture m 1))
      | None \<Rightarrow>
          (case regExpMatch overwriteRegExp commandLine of
             Some m \<Rightarrow> Some (Overwrite, trim (capture m 2), trim (capture m 1))
           | None \<Rightarrow> None))"

subsection \<open>execute\<close>

text \<open>What \<open>execute\<close> has before it dispatches: the command word and the raw arguments.\<close>

definition commandText :: "string \<Rightarrow> string" where
  "commandText commandLine =
     (case redirectStage (restLine (pipeStage commandLine)) of
        Some r \<Rightarrow> snd (snd r)
      | None \<Rightarrow> actualCommand (pipeStage commandLine))"

definition commandWord :: "string \<Rightarrow> string" where
  "commandWord commandLine = (case splitWs (trim (commandText commandLine)) of [] \<Rightarrow> [] | c # as \<Rightarrow> c)"

definition rawArgs :: "string \<Rightarrow> string list" where
  "rawArgs commandLine = (case splitWs (trim (commandText commandLine)) of [] \<Rightarrow> [] | c # as \<Rightarrow> as)"

text \<open>
  The tail of \<open>execute\<close>, after the handler returned \<open>output\<close>: the grep filter, then
  the redirect (taken when \<open>redirectMode && redirectFile\<close>: the target is not empty).
\<close>

definition finish :: "string \<Rightarrow> UnixShell \<Rightarrow> string \<Rightarrow> outcome \<times> UnixShell" where
  "finish commandLine sh output0 =
     (let output = (case grepPattern (pipeStage commandLine) of
                      None \<Rightarrow> output0
                    | Some pat \<Rightarrow> applyGrep pat (grepFlags (pipeStage commandLine)) output0)
      in case redirectStage (restLine (pipeStage commandLine)) of
           None \<Rightarrow> (Returned output, sh)
         | Some r \<Rightarrow>
             (if fst (snd r) = [] then (Returned output, sh)
              else (let w = writeToFile sh (fst (snd r)) output (fst r)
                    in case fst w of
                         Returned (Some err) \<Rightarrow> (Returned err, snd w)
                       | Returned None \<Rightarrow> (Returned [], snd w)
                       | Thrown msg \<Rightarrow> (Thrown msg, snd w)
                       | Foreign \<Rightarrow> (Foreign, snd w))))"

text \<open>
  \<open>execute\<close>. \<open>Thrown\<close> is an exception that leaves \<open>execute\<close>: the \<open>SyntaxError\<close> of
  the wildcard stage, which runs before the \<open>try\<close>. An exception of a handler is caught
  and becomes the returned string; \<open>_isPiped\<close> is then not reset.
\<close>

definition execute :: "Host \<Rightarrow> string \<Rightarrow> UnixShell \<Rightarrow> outcome \<times> UnixShell" where
  "execute h commandLine sh =
     (if trim commandLine = [] then (Returned [], sh)
      else (let sh1 = sh\<lparr>commandHistory := commandHistory sh @ [commandLine]\<rparr>;
                command = commandWord commandLine
            in case expandWildcards h sh1 (rawArgs commandLine) of
                 Inl msg \<Rightarrow> (Thrown msg, sh1)
               | Inr args \<Rightarrow>
                   (case callCommand h (sh1\<lparr>isPiped := grepPattern (pipeStage commandLine) \<noteq> None\<rparr>)
                           command args of
                      None \<Rightarrow> (Returned (command @ '': command not found''), sh1)
                    | Some r \<Rightarrow>
                        (case fst r of
                           Thrown msg \<Rightarrow>
                             (Returned (''Error executing '' @ command @ '': '' @ msg), snd r)
                         | Foreign \<Rightarrow> (Foreign, snd r)
                         | Returned output \<Rightarrow>
                             finish commandLine ((snd r)\<lparr>isPiped := False\<rparr>) output))))"

section \<open>The modal editor\<close>

subsection \<open>JavaScript arrays and slices\<close>

text \<open>
  The cursor is a pair of JavaScript numbers, here integers. \<open>xs[i]\<close> outside the array
  is \<open>undefined\<close> (\<open>None\<close>); \<open>slice\<close> and \<open>splice\<close> count a negative position from
  the end and clamp to the length, as the language defines them.
\<close>

definition jsIndex :: "'a list \<Rightarrow> int \<Rightarrow> 'a option" where
  "jsIndex xs i = (if 0 \<le> i \<and> i < int (length xs) then Some (xs ! nat i) else None)"

definition jsPosition :: "nat \<Rightarrow> int \<Rightarrow> nat" where
  "jsPosition len i = (if i < 0 then nat (max (int len + i) 0) else nat (min i (int len)))"

definition jsSlice :: "'a list \<Rightarrow> int \<Rightarrow> int \<Rightarrow> 'a list" where
  "jsSlice xs a b = take (jsPosition (length xs) b - jsPosition (length xs) a) (drop (jsPosition (length xs) a) xs)"

definition jsSliceFrom :: "'a list \<Rightarrow> int \<Rightarrow> 'a list" where
  "jsSliceFrom xs a = drop (jsPosition (length xs) a) xs"

definition jsSplice :: "'a list \<Rightarrow> int \<Rightarrow> int \<Rightarrow> 'a list \<Rightarrow> 'a list" where
  "jsSplice xs start deleteCount items =
     (let s = jsPosition (length xs) start;
          d = min (nat deleteCount) (length xs - s)
      in take s xs @ items @ drop (s + d) xs)"

text \<open>An \<open>undefined\<close> operand of string concatenation reads \<open>undefined\<close>.\<close>

definition jsString :: "string option \<Rightarrow> string" where
  "jsString v = (case v of None \<Rightarrow> ''undefined'' | Some s \<Rightarrow> s)"

subsection \<open>The editor state\<close>

datatype Mode = Normal | Insert | Command

record KeyEvent =
  key :: string
  shiftKey :: bool
  ctrlKey :: bool
  metaKey :: bool

text \<open>
  The fields of \<open>ViEditor\<close>. \<open>yankBuffer\<close> can become \<open>undefined\<close> (\<open>None\<close>).
  \<open>saved\<close> lists the contents handed to \<open>saveCallback\<close>, and \<open>closed\<close> records that
  \<open>close\<close> ran (the key listener is removed and \<open>exitCallback\<close> called). The DOM
  elements and \<open>render\<close>, which changes no field, are left out.
\<close>

record ViEditor =
  filename :: string
  lines :: "string list"
  cursorRow :: int
  cursorCol :: int
  mode :: Mode
  commandBuffer :: string
  normalModeBuffer :: string
  yankBuffer :: "string option"
  message :: string
  modified :: bool
  saved :: "string list"
  closed :: bool

datatype jsError = TypeError

definition newEditor :: "string \<Rightarrow> string \<Rightarrow> ViEditor" where
  "newEditor name content =
     \<lparr> filename = name,
       lines = (if content \<noteq> [] then splitOn CHR 0x0A content else [[]]),
       cursorRow = 0, cursorCol = 0, mode = Normal, commandBuffer = [], normalModeBuffer = [],
       yankBuffer = Some [], message = [], modified = False, saved = [], closed = False \<rparr>"

text \<open>\<open>this.lines[this.cursorRow]\<close> and the assignment to it.\<close>

definition currentLine :: "ViEditor \<Rightarrow> string option" where
  "currentLine ed = jsIndex (lines ed) (cursorRow ed)"

definition setLine :: "ViEditor \<Rightarrow> string \<Rightarrow> ViEditor" where
  "setLine ed v = ed\<lparr>lines := (lines ed)[nat (cursorRow ed) := v]\<rparr>"

subsection \<open>handleDeleteMotion\<close>

text \<open>\<open>/^\S+\s*/\<close>, with the whole match as group 0.\<close>

definition wordRegExp :: RegExp where
  "wordRegExp = Seq Bol (Group 0 (Seq (Repeat True 1 None NonSpaceChar) (Repeat True 0 None SpaceChar)))"

text \<open>
  The three steps that follow a \<open>splice\<close> in the line-wise motions: the buffer is
  refilled when empty, and the row pulled back onto the last line.
\<close>

definition ensureLine :: "ViEditor \<Rightarrow> ViEditor" where
  "ensureLine ed = (if length (lines ed) = 0 then ed\<lparr>lines := [[]]\<rparr> else ed)"

definition clampRow :: "ViEditor \<Rightarrow> ViEditor" where
  "clampRow ed =
     (if cursorRow ed \<ge> int (length (lines ed)) then ed\<lparr>cursorRow := int (length (lines ed)) - 1\<rparr>
      else ed)"

text \<open>
  The end of \<open>handleDeleteMotion\<close>: \<open>if (deletedContent)\<close> holds of a non-empty
  string only.
\<close>

definition storeDeleted :: "ViEditor \<Rightarrow> string option \<Rightarrow> nat \<Rightarrow> ViEditor" where
  "storeDeleted ed deletedContent numLinesDeleted =
     (let ed1 = (if deletedContent \<noteq> None \<and> deletedContent \<noteq> Some []
                 then ed\<lparr>yankBuffer := deletedContent, modified := True,
                         message := (if numLinesDeleted > 0
                                     then showNat numLinesDeleted @ '' line''
                                          @ (if numLinesDeleted > 1 then ''s'' else []) @ '' deleted''
                                     else ''deleted'')\<rparr>
                 else ed)
      in ed1\<lparr>normalModeBuffer := []\<rparr>)"

definition deleteLines :: "ViEditor \<Rightarrow> ViEditor" where
  "deleteLines ed =
     storeDeleted
       ((clampRow (ensureLine (ed\<lparr>lines := jsSplice (lines ed) (cursorRow ed) 1 []\<rparr>)))\<lparr>cursorCol := 0\<rparr>)
       (currentLine ed) 1"

text \<open>The branches of \<open>handleDeleteMotion\<close>, one for each motion after \<open>dd\<close>.\<close>

definition deleteDown :: "ViEditor \<Rightarrow> jsError + ViEditor" where
  "deleteDown ed =
     (if cursorRow ed < int (length (lines ed)) - 1
      then Inr (storeDeleted
             ((clampRow (ensureLine (ed\<lparr>lines := jsSplice (lines ed) (cursorRow ed) 2 []\<rparr>)))
                \<lparr>cursorCol := 0\<rparr>)
             (Some (jsString (currentLine ed) @ nl
                    @ jsString (jsIndex (lines ed) (cursorRow ed + 1)))) 2)
      else Inr (deleteLines ed))"

definition deleteUp :: "ViEditor \<Rightarrow> jsError + ViEditor" where
  "deleteUp ed =
     (if cursorRow ed > 0
      then (let ed1 = ed\<lparr>lines := jsSplice (lines ed) (cursorRow ed - 1) 2 [],
                          cursorRow := cursorRow ed - 1\<rparr>;
                ed2 = (if length (lines ed1) = 0 then ed1\<lparr>lines := [[]], cursorRow := 0\<rparr> else ed1)
            in Inr (storeDeleted ((clampRow ed2)\<lparr>cursorCol := 0\<rparr>)
                 (Some (jsString (jsIndex (lines ed) (cursorRow ed - 1)) @ nl
                        @ jsString (currentLine ed))) 2))
      else Inr (storeDeleted
             ((ensureLine (ed\<lparr>lines := jsSplice (lines ed) (cursorRow ed) 1 []\<rparr>))\<lparr>cursorCol := 0\<rparr>)
             (currentLine ed) 1))"

definition deleteToEnd :: "ViEditor \<Rightarrow> jsError + ViEditor" where
  "deleteToEnd ed =
     (case currentLine ed of
        None \<Rightarrow> Inl TypeError
      | Some line \<Rightarrow>
          Inr (storeDeleted (setLine ed (jsSlice line 0 (cursorCol ed)))
                 (Some (jsSliceFrom line (cursorCol ed))) 0))"

definition deleteToStart :: "ViEditor \<Rightarrow> jsError + ViEditor" where
  "deleteToStart ed =
     (case currentLine ed of
        None \<Rightarrow> Inl TypeError
      | Some line \<Rightarrow>
          Inr (storeDeleted ((setLine ed (jsSliceFrom line (cursorCol ed)))\<lparr>cursorCol := 0\<rparr>)
                 (Some (jsSlice line 0 (cursorCol ed))) 0))"

definition deleteWord :: "ViEditor \<Rightarrow> jsError + ViEditor" where
  "deleteWord ed =
     (case currentLine ed of
        None \<Rightarrow> Inl TypeError
      | Some line \<Rightarrow>
          (case regExpMatch wordRegExp (jsSliceFrom line (cursorCol ed)) of
             None \<Rightarrow> Inr (storeDeleted ed (Some []) 0)
           | Some m \<Rightarrow>
               Inr (storeDeleted
                      (setLine ed (jsSlice line 0 (cursorCol ed)
                         @ jsSliceFrom line (cursorCol ed + int (length (capture m 0)))))
                      (Some (capture m 0)) 0)))"

definition deleteRight :: "ViEditor \<Rightarrow> jsError + ViEditor" where
  "deleteRight ed =
     (case currentLine ed of
        None \<Rightarrow> Inl TypeError
      | Some line \<Rightarrow>
          (if cursorCol ed < int (length line)
           then Inr (storeDeleted
                  (setLine ed (jsSlice line 0 (cursorCol ed) @ jsSliceFrom line (cursorCol ed + 1)))
                  (map_option (\<lambda>c. [c]) (jsIndex line (cursorCol ed))) 0)
           else Inr (storeDeleted ed (Some []) 0)))"

definition deleteLeft :: "ViEditor \<Rightarrow> jsError + ViEditor" where
  "deleteLeft ed =
     (if cursorCol ed > 0
      then (case currentLine ed of
              None \<Rightarrow> Inl TypeError
            | Some line \<Rightarrow>
                Inr (storeDeleted
                       ((setLine ed (jsSlice line 0 (cursorCol ed - 1) @ jsSliceFrom line (cursorCol ed)))
                          \<lparr>cursorCol := cursorCol ed - 1\<rparr>)
                       (map_option (\<lambda>c. [c]) (jsIndex line (cursorCol ed - 1))) 0))
      else Inr (storeDeleted ed (Some []) 0))"

definition handleDeleteMotion :: "ViEditor \<Rightarrow> string \<Rightarrow> jsError + ViEditor" where
  "handleDeleteMotion ed k =
     (if k = ''d'' then Inr (deleteLines ed)
      else if k = ''j'' \<or> k = ''ArrowDown'' then deleteDown ed
      else if k = ''k'' \<or> k = ''ArrowUp'' then deleteUp ed
      else if k = ''$'' then deleteToEnd ed
      else if k = ''0'' then deleteToStart ed
      else if k = ''w'' then deleteWord ed
      else if k = ''l'' \<or> k = ''ArrowRight'' then deleteRight ed
      else if k = ''h'' \<or> k = ''ArrowLeft'' then deleteLeft ed
      else Inr (ed\<lparr>normalModeBuffer := []\<rparr>))"

subsection \<open>handleNormalMode\<close>

text \<open>
  \<open>this.lines[this.cursorRow].length\<close> and the like throw a \<open>TypeError\<close> when the row
  is outside the buffer.
\<close>

definition handleNormalMode :: "ViEditor \<Rightarrow> KeyEvent \<Rightarrow> jsError + ViEditor" where
  "handleNormalMode ed0 e =
     (if normalModeBuffer ed0 = ''d'' then handleDeleteMotion ed0 (key e)
      else (let ed = ed0\<lparr>normalModeBuffer := []\<rparr>; k = key e
            in if k = ''h'' \<or> k = ''ArrowLeft''
               then Inr (ed\<lparr>cursorCol := max 0 (cursorCol ed - 1)\<rparr>)
               else if k = ''j'' \<or> k = ''ArrowDown''
               then (let ed1 = ed\<lparr>cursorRow := min (int (length (lines ed)) - 1) (cursorRow ed + 1)\<rparr>
                     in case currentLine ed1 of
                          None \<Rightarrow> Inl TypeError
                        | Some line \<Rightarrow> Inr (ed1\<lparr>cursorCol := min (cursorCol ed1) (int (length line))\<rparr>))
               else if k = ''k'' \<or> k = ''ArrowUp''
               then (let ed1 = ed\<lparr>cursorRow := max 0 (cursorRow ed - 1)\<rparr>
                     in case currentLine ed1 of
                          None \<Rightarrow> Inl TypeError
                        | Some line \<Rightarrow> Inr (ed1\<lparr>cursorCol := min (cursorCol ed1) (int (length line))\<rparr>))
               else if k = ''l'' \<or> k = ''ArrowRight''
               then (case currentLine ed of
                       None \<Rightarrow> Inl TypeError
                     | Some line \<Rightarrow> Inr (ed\<lparr>cursorCol := min (int (length line)) (cursorCol ed + 1)\<rparr>))
               else if k = ''0'' then Inr (ed\<lparr>cursorCol := 0\<rparr>)
               else if k = ''$''
               then (case currentLine ed of
                       None \<Rightarrow> Inl TypeError
                     | Some line \<Rightarrow> Inr (ed\<lparr>cursorCol := int (length line)\<rparr>))
               else if k = ''g'' \<and> shiftKey e
               then Inr (ed\<lparr>cursorRow := int (length (lines ed)) - 1\<rparr>)
               else if k = ''i'' then Inr (ed\<lparr>mode := Insert\<rparr>)
               else if k = ''a''
               then (case currentLine ed of
                       None \<Rightarrow> Inl TypeError
                     | Some line \<Rightarrow>
                         Inr (ed\<lparr>cursorCol := min (int (length line)) (cursorCol ed + 1), mode := Insert\<rparr>))
               else if k = ''o''
               then Inr (ed\<lparr>lines := jsSplice (lines ed) (cursorRow ed + 1) 0 [[]],
                             cursorRow := cursorRow ed + 1, cursorCol := 0, mode := Insert,
                             modified := True\<rparr>)
               else if k = ''O'' \<and> shiftKey e
               then Inr (ed\<lparr>lines := jsSplice (lines ed) (cursorRow ed) 0 [[]],
                             cursorCol := 0, mode := Insert, modified := True\<rparr>)
               else if k = ''x''
               then (case currentLine ed of
                       None \<Rightarrow> Inl TypeError
                     | Some line \<Rightarrow>
                         (if cursorCol ed < int (length line)
                          then Inr ((setLine ed (jsSlice line 0 (cursorCol ed)
                                      @ jsSliceFrom line (cursorCol ed + 1)))\<lparr>modified := True\<rparr>)
                          else Inr ed))
               else if k = ''d'' \<and> shiftKey e
               then (case currentLine ed of
                       None \<Rightarrow> Inl TypeError
                     | Some line \<Rightarrow>
                         Inr ((setLine ed (jsSlice line 0 (cursorCol ed)))\<lparr>modified := True\<rparr>))
               else if k = ''d'' \<and> \<not> shiftKey e then Inr (ed\<lparr>normalModeBuffer := ''d''\<rparr>)
               else if k = ''y'' \<and> shiftKey e
               then Inr (ed\<lparr>yankBuffer := currentLine ed, message := ''yanked line''\<rparr>)
               else if k = ''p''
               then (if yankBuffer ed \<noteq> None \<and> yankBuffer ed \<noteq> Some []
                     then Inr (ed\<lparr>lines := jsSplice (lines ed) (cursorRow ed + 1) 0 [jsString (yankBuffer ed)],
                                   cursorRow := cursorRow ed + 1, modified := True\<rparr>)
                     else Inr ed)
               else if k = '':'' then Inr (ed\<lparr>mode := Command, commandBuffer := []\<rparr>)
               else Inr ed))"

subsection \<open>handleInsertMode, handleCommandMode, handleKey\<close>

definition printable :: "KeyEvent \<Rightarrow> bool" where
  "printable e = (length (key e) = 1 \<and> \<not> ctrlKey e \<and> \<not> metaKey e)"

definition handleInsertMode :: "ViEditor \<Rightarrow> KeyEvent \<Rightarrow> jsError + ViEditor" where
  "handleInsertMode ed e =
     (let k = key e
      in if k = ''Escape'' then Inr (ed\<lparr>mode := Normal, cursorCol := max 0 (cursorCol ed - 1)\<rparr>)
         else if k = ''Enter''
         then (case currentLine ed of
                 None \<Rightarrow> Inl TypeError
               | Some line \<Rightarrow>
                   Inr ((setLine ed (jsSlice line 0 (cursorCol ed)))
                          \<lparr>lines := jsSplice (lines (setLine ed (jsSlice line 0 (cursorCol ed))))
                                      (cursorRow ed + 1) 0 [jsSliceFrom line (cursorCol ed)],
                           cursorRow := cursorRow ed + 1, cursorCol := 0, modified := True\<rparr>))
         else if k = ''Backspace''
         then (if cursorCol ed > 0
               then (case currentLine ed of
                       None \<Rightarrow> Inl TypeError
                     | Some line \<Rightarrow>
                         Inr ((setLine ed (jsSlice line 0 (cursorCol ed - 1) @ jsSliceFrom line (cursorCol ed)))
                                \<lparr>cursorCol := cursorCol ed - 1, modified := True\<rparr>))
               else if cursorRow ed > 0
               then (let ed1 = ed\<lparr>cursorRow := cursorRow ed - 1\<rparr>
                     in case currentLine ed1 of
                          None \<Rightarrow> Inl TypeError
                        | Some prev \<Rightarrow>
                            Inr ((setLine ed1 (prev @ jsString (currentLine ed)))
                                   \<lparr>lines := jsSplice (lines (setLine ed1 (prev @ jsString (currentLine ed))))
                                               (cursorRow ed1 + 1) 1 [],
                                    cursorCol := int (length prev), modified := True\<rparr>))
               else Inr ed)
         else if printable e
         then (case currentLine ed of
                 None \<Rightarrow> Inl TypeError
               | Some line \<Rightarrow>
                   Inr ((setLine ed (jsSlice line 0 (cursorCol ed) @ k @ jsSliceFrom line (cursorCol ed)))
                          \<lparr>cursorCol := cursorCol ed + 1, modified := True\<rparr>))
         else Inr ed)"

definition save :: "ViEditor \<Rightarrow> ViEditor" where
  "save ed = ed\<lparr>saved := saved ed @ [join nl (lines ed)], modified := False\<rparr>"

definition close :: "ViEditor \<Rightarrow> ViEditor" where
  "close ed = ed\<lparr>closed := True\<rparr>"

definition executeCommand :: "ViEditor \<Rightarrow> string \<Rightarrow> ViEditor" where
  "executeCommand ed cmd =
     (if cmd = ''w''
      then (save ed)\<lparr>message := [CHR 0x22] @ filename ed @ [CHR 0x22] @ '' ''
                                 @ showNat (length (lines ed)) @ ''L written'',
                      mode := Normal\<rparr>
      else if cmd = ''q''
      then (if modified ed
            then ed\<lparr>message := ''No write since last change (add ! to override)'', mode := Normal\<rparr>
            else close ed)
      else if cmd = ''q!'' then close ed
      else if cmd = ''wq'' \<or> cmd = ''x'' then close (save ed)
      else ed\<lparr>message := ''Not an editor command: '' @ cmd, mode := Normal\<rparr>)"

definition handleCommandMode :: "ViEditor \<Rightarrow> KeyEvent \<Rightarrow> ViEditor" where
  "handleCommandMode ed e =
     (let k = key e
      in if k = ''Escape'' then ed\<lparr>mode := Normal, commandBuffer := []\<rparr>
         else if k = ''Enter'' then (executeCommand ed (commandBuffer ed))\<lparr>commandBuffer := []\<rparr>
         else if k = ''Backspace''
         then (if butlast (commandBuffer ed) = []
               then ed\<lparr>commandBuffer := [], mode := Normal\<rparr>
               else ed\<lparr>commandBuffer := butlast (commandBuffer ed)\<rparr>)
         else if printable e then ed\<lparr>commandBuffer := commandBuffer ed @ k\<rparr>
         else ed)"

definition handleKey :: "ViEditor \<Rightarrow> KeyEvent \<Rightarrow> jsError + ViEditor" where
  "handleKey ed0 e =
     (let ed = ed0\<lparr>message := []\<rparr>
      in case mode ed of
           Normal \<Rightarrow> handleNormalMode ed e
         | Insert \<Rightarrow> handleInsertMode ed e
         | Command \<Rightarrow> Inr (handleCommandMode ed e))"

text \<open>
  A run of key events from the host: the listener calls \<open>handleKey\<close> until \<open>close\<close>
  has removed it; an exception ends the run.
\<close>

fun pressKeys :: "ViEditor \<Rightarrow> KeyEvent list \<Rightarrow> jsError + ViEditor" where
  "pressKeys ed [] = Inr ed"
| "pressKeys ed (e # es) =
     (if closed ed then Inr ed
      else case handleKey ed e of Inl err \<Rightarrow> Inl err | Inr ed' \<Rightarrow> pressKeys ed' es)"

definition plainKey :: "string \<Rightarrow> KeyEvent" where
  "plainKey k = \<lparr>key = k, shiftKey = False, ctrlKey = False, metaKey = False\<rparr>"

text \<open>The cursor bounds of the data model.\<close>

definition cursorInBounds :: "ViEditor \<Rightarrow> bool" where
  "cursorInBounds ed =
     (0 \<le> cursorRow ed \<and> cursorRow ed \<le> int (length (lines ed)) - 1 \<and> 0 \<le> cursorCol ed
      \<and> cursorCol ed \<le> int (length (lines ed ! nat (cursorRow ed))))"

section \<open>Notions used by the properties\<close>

text \<open>\<open>onlyFs sh sh'\<close>: the two states differ in the filesystem at most.\<close>

definition onlyFs :: "UnixShell \<Rightarrow> UnixShell \<Rightarrow> bool" where
  "onlyFs sh sh' = (sh' = sh\<lparr>fileSystem := fileSystem sh'\<rparr>)"

text \<open>
  A host for the concrete evaluations: collation by code units, and an engine that
  rejects every pattern outside the modelled fragment.
\<close>

definition exampleHost :: Host where
  "exampleHost = \<lparr>dateString = ''Tue Nov 03 2026 10:00:00 GMT+0000 (Coordinated Universal Time)'',
     localeDateString = ''Nov 3, 10:00 AM'', localeCompare = codeUnitCompare,
     regExpTest = (\<lambda>src. Inl (''Invalid regular expression: /'' @ src @ ''/''))\<rparr>"

text \<open>A word without white space and without the characters the pipeline interprets.\<close>

definition plainWord :: "string \<Rightarrow> bool" where
  "plainWord w = (w \<noteq> [] \<and> list_all (\<lambda>c. \<not> isSpace c \<and> c \<noteq> CHR ''|'' \<and> c \<noteq> CHR ''>''
                                     \<and> c \<noteq> CHR ''*'' \<and> c \<noteq> CHR ''?'') w)"

text \<open>The node the segments of \<open>currentPath\<close> lead to.\<close>

definition currentDirectory :: "UnixShell \<Rightarrow> JsValue" where
  "currentDirectory sh = walk (Node (Directory (fileSystem sh))) (pathParts (currentPath sh))"

text \<open>
  A name that \<open>resolvePath\<close> appends to the current path as one segment.
\<close>

definition fileName :: "string \<Rightarrow> bool" where
  "fileName n = (n \<noteq> [] \<and> CHR ''/'' \<notin> set n \<and> n \<noteq> ''..'' \<and> n \<noteq> ''.'' \<and> hd n \<noteq> CHR ''~'')"

text \<open>
  The lines \<open>echo "text" > f.txt\<close> and \<open>echo "text" >> f.txt\<close>, with the double
  quotes written as code unit 0x22.
\<close>

definition dq :: string where
  "dq = [CHR 0x22]"

definition echoTo :: "string \<Rightarrow> string \<Rightarrow> string" where
  "echoTo text operator = ''echo '' @ dq @ text @ dq @ '' '' @ operator @ '' f.txt''"

text \<open>
  The grep filter in the words of the specification: split the output on newlines, keep
  the lines that contain the pattern as a substring (both lower-cased under \<open>-i\<close>), or
  those that do not under \<open>-v\<close>, join with newlines, and drop one trailing newline when
  the result ends in two.
\<close>

definition grepFilterSpec :: "string \<Rightarrow> GrepFlags \<Rightarrow> string \<Rightarrow> string" where
  "grepFilterSpec pat flags output =
     (let contains = (\<lambda>line. if ignoreCase flags then sublist (toLowerCase pat) (toLowerCase line)
                             else sublist pat line);
          kept = filter (\<lambda>line. contains line \<noteq> invert flags) (splitOn CHR 0x0A output);
          joined = join nl kept
      in if endsWith joined (nl @ nl) then butlast joined else joined)"

text \<open>A shell whose home directory holds \<open>README.md\<close> and \<open>notes.txt\<close>.\<close>

definition notesShell :: UnixShell where
  "notesShell = newShell (Some [(''home'', Directory [(''user'', Directory
       [(''README.md'', File ''# Readme''), (''notes.txt'', File ''some notes'')])])]) ''user''"

text \<open>
  What a wildcard argument of the modelled fragment means, stated without the matcher:
  \<open>*\<close> stands for any run of characters other than line terminators, \<open>?\<close> and \<open>.\<close>
  for one such character, any other character for itself; the whole name must be used up.
\<close>

fun globMatches :: "string \<Rightarrow> string \<Rightarrow> bool" where
  "globMatches [] name = (name = [])"
| "globMatches (c # cs) name =
     (if c = CHR ''*''
      then list_ex (\<lambda>k. list_all (\<lambda>x. \<not> isLineTerminator x) (take k name) \<and> globMatches cs (drop k name))
             [0..<Suc (length name)]
      else (case name of
              [] \<Rightarrow> False
            | x # xs \<Rightarrow>
                (if c = CHR ''?'' \<or> c = CHR ''.'' then \<not> isLineTerminator x else x = c)
                \<and> globMatches cs xs))"

text \<open>
  The handler a call ends in. \<open>cmd_sudo\<close> passes its call on: to \<open>cmd_su\<close>, or to the
  handler stored under its first argument, which may be \<open>cmd_sudo\<close> again. \<open>None\<close>
  when the chain ends in no handler: the name is not in the table or is an inherited one.
\<close>

fun delegate :: "UnixShell \<Rightarrow> string list \<Rightarrow> Builtin option" where
  "delegate sh [] =
     (case map_of (commands sh) ''undefined'' of
        None \<Rightarrow> None
      | Some b \<Rightarrow> (if b = CmdSudo then None else Some b))"
| "delegate sh (a # rest) =
     (if a = ''su'' then Some CmdSu
      else case map_of (commands sh) a of
             None \<Rightarrow> None
           | Some b \<Rightarrow> (if b = CmdSudo then delegate sh rest else Some b))"

definition finalHandler :: "UnixShell \<Rightarrow> Builtin \<Rightarrow> string list \<Rightarrow> Builtin option" where
  "finalHandler sh b args = (if b = CmdSudo then delegate sh args else Some b)"

chapter \<open>Properties\<close>

section \<open>Write permission\<close>

lemma startsWith_append: "startsWith (p @ s) p"
  by (simp add: startsWith_def)

lemma canWrite_root: "currentUser sh = ''root'' \<Longrightarrow> canWrite sh p"
  by (simp add: canWrite_def)

lemma canWrite_prefix:
  "currentUser sh \<noteq> ''root'' \<Longrightarrow>
   canWrite sh p = startsWith (resolvePath sh p) (''/home/'' @ currentUser sh)"
  by (simp add: canWrite_def)

lemma canWrite_home:
  assumes "resolvePath sh p = ''/home/'' @ currentUser sh
           \<or> startsWith (resolvePath sh p) (''/home/'' @ currentUser sh @ ''/'')"
  shows "canWrite sh p"
proof -
  have "startsWith (resolvePath sh p) (''/home/'' @ currentUser sh)"
    using assms
  proof
    assume "resolvePath sh p = ''/home/'' @ currentUser sh"
    then show ?thesis by (simp add: startsWith_def)
  next
    assume "startsWith (resolvePath sh p) (''/home/'' @ currentUser sh @ ''/'')"
    then have "take (length (''/home/'' @ currentUser sh @ ''/'')) (resolvePath sh p)
               = ''/home/'' @ currentUser sh @ ''/''"
      by (simp add: startsWith_def)
    then have "take (length (''/home/'' @ currentUser sh))
                 (take (length (''/home/'' @ currentUser sh @ ''/'')) (resolvePath sh p))
               = take (length (''/home/'' @ currentUser sh)) (''/home/'' @ currentUser sh @ ''/'')"
      by simp
    then show ?thesis
      by (simp add: startsWith_def min_def)
  qed
  then show ?thesis by (simp add: canWrite_def)
qed

text \<open>
  Claim C1 says that a user other than root can write a path exactly when its resolved
  form is \<open>/home/U\<close> or starts with \<open>/home/U/\<close>. \<open>canWrite\<close> tests the prefix
  \<open>/home/U\<close> without the closing slash (\<open>canWrite_prefix\<close>), so it also grants the
  home of every user whose name begins with \<open>U\<close>: for the user \<open>user\<close> the path
  \<open>/home/user2/notes.txt\<close> is neither \<open>/home/user\<close> nor under \<open>/home/user/\<close>, and
  \<open>canWrite\<close> returns true. The other direction holds (\<open>canWrite_home\<close>), and root may
  write everywhere (\<open>canWrite_root\<close>).
\<close>

theorem canWrite_sibling_of_home:
  "currentUser (newShell None ''user'') \<noteq> ''root''
   \<and> resolvePath (newShell None ''user'') ''/home/user2/notes.txt'' = ''/home/user2/notes.txt''
   \<and> ''/home/user2/notes.txt'' \<noteq> ''/home/user''
   \<and> \<not> startsWith ''/home/user2/notes.txt'' ''/home/user/''
   \<and> canWrite (newShell None ''user'') ''/home/user2/notes.txt''"
  by (simp add: canWrite_def resolvePath_def startsWith_def newShell_def)

section \<open>Path resolution\<close>

lemma foldPart_pop_empty: "foldPart [] ''..'' = []"
  by (simp add: foldPart_def)

lemma length_fold_dots:
  "list_all (\<lambda>seg. seg = ''..'' \<or> seg = ''.'') segs \<Longrightarrow>
   length (foldl foldPart parts segs) = length parts - length (filter (\<lambda>seg. seg = ''..'') segs)"
  by (induction segs arbitrary: parts) (auto simp: foldPart_def)

text \<open>
  Claim C2, as amended. \<open>resolvePath\<close> cannot throw (its model is a total function into
  strings; popping the empty segment stack is \<open>foldPart_pop_empty\<close>). A path that starts
  with \<open>/\<close> is returned as it is, with its \<open>..\<close> segments. A relative path made of
  \<open>..\<close> and \<open>.\<close> segments, with at least as many \<open>..\<close> as the current path has
  segments, resolves to \<open>/\<close>.
\<close>

theorem resolvePath_excess_dotdot:
  "(startsWith p ''/'' \<longrightarrow> resolvePath sh p = p) \<and>
   (\<not> startsWith p ''/'' \<and> \<not> startsWith p ''~''
      \<and> list_all (\<lambda>seg. seg = ''..'' \<or> seg = ''.'') (pathParts p)
      \<and> length (pathParts (currentPath sh)) \<le> length (filter (\<lambda>seg. seg = ''..'') (pathParts p))
    \<longrightarrow> resolvePath sh p = ''/'')"
proof (intro conjI impI)
  assume a: "startsWith p ''/''"
  then have "\<not> startsWith p ''~''"
    by (cases p) (auto simp: startsWith_def)
  with a show "resolvePath sh p = p"
    by (simp add: resolvePath_def)
next
  assume a: "\<not> startsWith p ''/'' \<and> \<not> startsWith p ''~''
      \<and> list_all (\<lambda>seg. seg = ''..'' \<or> seg = ''.'') (pathParts p)
      \<and> length (pathParts (currentPath sh)) \<le> length (filter (\<lambda>seg. seg = ''..'') (pathParts p))"
  then have "length (foldl foldPart (pathParts (currentPath sh)) (pathParts p)) = 0"
    by (simp add: length_fold_dots)
  then have "foldl foldPart (pathParts (currentPath sh)) (pathParts p) = []"
    by simp
  with a show "resolvePath sh p = ''/''"
    by (simp add: resolvePath_def)
qed

text \<open>The amended claim C2 at \<open>../../..\<close> from \<open>/home/user\<close>, and at \<open>/../..\<close>.\<close>

theorem resolvePath_excess_dotdot_witness:
  "startsWith ''/../..'' ''/'' \<and> resolvePath (newShell None ''user'') ''/../..'' = ''/../..''
   \<and> \<not> startsWith ''../../..'' ''/'' \<and> \<not> startsWith ''../../..'' ''~''
   \<and> list_all (\<lambda>seg. seg = ''..'' \<or> seg = ''.'') (pathParts ''../../..'')
   \<and> length (pathParts (currentPath (newShell None ''user'')))
        \<le> length (filter (\<lambda>seg. seg = ''..'') (pathParts ''../../..''))
   \<and> resolvePath (newShell None ''user'') ''../../..'' = ''/''"
proof -
  have h: "startsWith ''/../..'' ''/'' \<and> \<not> startsWith ''../../..'' ''/'' \<and> \<not> startsWith ''../../..'' ''~''
   \<and> list_all (\<lambda>seg. seg = ''..'' \<or> seg = ''.'') (pathParts ''../../..'')
   \<and> length (pathParts (currentPath (newShell None ''user'')))
        \<le> length (filter (\<lambda>seg. seg = ''..'') (pathParts ''../../..''))"
    by code_simp
  with resolvePath_excess_dotdot [of "''../../..''" "newShell None ''user''"]
    resolvePath_excess_dotdot [of "''/../..''" "newShell None ''user''"]
  show ?thesis by blast
qed

text \<open>
  Claim C2 as stated fails: \<open>/../..\<close> starts with \<open>/\<close>, so \<open>resolvePath\<close> returns it
  unchanged and the result is not \<open>/\<close>.
\<close>

theorem resolvePath_absolute_counterexample:
  "resolvePath (newShell None ''user'') ''/../..'' \<noteq> ''/''"
  by (simp add: resolvePath_def startsWith_def)

section \<open>What the handlers leave unchanged\<close>

lemma onlyFs_refl: "onlyFs sh sh"
  by (simp add: onlyFs_def)

lemma onlyFs_update: "onlyFs sh (sh\<lparr>fileSystem := es\<rparr>)"
  by (simp add: onlyFs_def)

lemma onlyFs_trans: "onlyFs a b \<Longrightarrow> onlyFs b c \<Longrightarrow> onlyFs a c"
  unfolding onlyFs_def
  by (metis UnixShell.surjective UnixShell.update_convs(1))

lemma onlyFs_fields:
  "onlyFs sh sh' \<Longrightarrow> currentUser sh' = currentUser sh \<and> currentPath sh' = currentPath sh
     \<and> environment sh' = environment sh \<and> commandHistory sh' = commandHistory sh
     \<and> userStack sh' = userStack sh \<and> isPiped sh' = isPiped sh \<and> commands sh' = commands sh"
  unfolding onlyFs_def
  by (metis UnixShell.select_convs(2-8) UnixShell.surjective UnixShell.update_convs(1))

lemma updateDirectory_onlyFs: "onlyFs sh (updateDirectory sh p f)"
  by (simp add: updateDirectory_def onlyFs_def split: FileSystemNode.split)

lemma writeToFile_onlyFs: "onlyFs sh (snd (writeToFile sh filePath content m))"
  by (simp add: writeToFile_def Let_def onlyFs_refl updateDirectory_onlyFs
      split: option.split FileSystemNode.split JsValue.split)

lemma cmd_mkdir_onlyFs: "onlyFs sh (snd (cmd_mkdir sh args))"
  by (simp add: cmd_mkdir_def Let_def onlyFs_refl updateDirectory_onlyFs
      split: option.split FileSystemNode.split JsValue.split)

lemma cmd_touch_onlyFs: "onlyFs sh (snd (cmd_touch sh args))"
  by (simp add: cmd_touch_def Let_def onlyFs_refl updateDirectory_onlyFs
      split: option.split FileSystemNode.split JsValue.split)

lemma rmTarget_onlyFs: "onlyFs (fst st) (fst (rmTarget r f v st target))"
  by (simp add: rmTarget_def Let_def onlyFs_refl updateDirectory_onlyFs
      split: option.split FileSystemNode.split JsValue.split)

lemma rm_loop_onlyFs: "onlyFs (fst st) (fst (foldl (rmTarget r f v) st targets))"
proof (induction targets arbitrary: st)
  case Nil
  show ?case by (simp add: onlyFs_refl)
next
  case (Cons t ts)
  have "onlyFs (fst st) (fst (rmTarget r f v st t))"
    by (rule rmTarget_onlyFs)
  moreover have "onlyFs (fst (rmTarget r f v st t)) (fst (foldl (rmTarget r f v) (rmTarget r f v st t) ts))"
    by (rule Cons.IH)
  ultimately show ?case
    by (simp add: onlyFs_trans)
qed

lemma cmd_rm_onlyFs: "onlyFs sh (snd (cmd_rm sh args))"
  using rm_loop_onlyFs [of "(sh, [], [], False)"]
  by (simp add: cmd_rm_def Let_def onlyFs_refl)

section \<open>Lines without a pipe or a redirect\<close>

lemma trim_empty_iff: "trim s = [] \<longleftrightarrow> list_all isSpace s"
proof -
  have "dropWhile isSpace s = [] \<longleftrightarrow> list_all isSpace s"
    by (simp add: dropWhile_eq_Nil_conv list_all_iff)
  moreover have "trim s = [] \<longleftrightarrow> dropWhile isSpace s = []"
  proof
    assume "trim s = []"
    then have a: "\<forall>x \<in> set (dropWhile isSpace s). isSpace x"
      by (simp add: trim_def dropWhile_eq_Nil_conv)
    show "dropWhile isSpace s = []"
    proof (rule ccontr)
      assume n: "dropWhile isSpace s \<noteq> []"
      then have "\<not> isSpace (hd (dropWhile isSpace s))"
        by (rule hd_dropWhile)
      moreover have "hd (dropWhile isSpace s) \<in> set (dropWhile isSpace s)"
        using n by simp
      ultimately show False using a by blast
    qed
  next
    assume d: "dropWhile isSpace s = []"
    show "trim s = []" unfolding trim_def d by simp
  qed
  ultimately show ?thesis by simp
qed

lemma firstSome_none: "firstSome (map (\<lambda>j. None) xs) = None"
  by (induction xs) simp_all

lemma matcher_dead: "matcher inp r (\<lambda>pos caps. None) = (\<lambda>pos caps. None)"
  by (induction r) (simp_all add: firstSome_none Let_def)

lemma atom_absent:
  assumes "c \<notin> set inp"
  shows "matcher inp (Atom (Literal c)) k = (\<lambda>pos caps. None)"
proof (intro ext)
  fix pos caps
  show "matcher inp (Atom (Literal c)) k pos caps = None"
    using assms nth_mem [of pos inp] by auto
qed

lemma appendRegExp_needs_gt: "CHR ''>'' \<notin> set inp \<Longrightarrow> regExpMatch appendRegExp inp = None"
  by (simp add: regExpMatch_def appendRegExp_def seqs_def atom_absent matcher_dead
      firstSome_none Let_def del: matcher.simps(1))

lemma overwriteRegExp_needs_gt: "CHR ''>'' \<notin> set inp \<Longrightarrow> regExpMatch overwriteRegExp inp = None"
  by (simp add: regExpMatch_def overwriteRegExp_def seqs_def atom_absent matcher_dead
      firstSome_none Let_def del: matcher.simps(1))

lemma redirectStage_needs_gt: "CHR ''>'' \<notin> set inp \<Longrightarrow> redirectStage inp = None"
  by (simp add: redirectStage_def appendRegExp_needs_gt overwriteRegExp_needs_gt)

lemma pipeStage_needs_bar:
  "CHR ''|'' \<notin> set commandLine \<Longrightarrow>
   pipeStage commandLine = \<lparr>grepParts = [], grepPattern = None,
                  grepFlags = \<lparr>ignoreCase = False, invert = False\<rparr>,
                  actualCommand = commandLine, restLine = commandLine\<rparr>"
  by (simp add: pipeStage_def)

lemma commandText_plain:
  "CHR ''|'' \<notin> set commandLine \<Longrightarrow> CHR ''>'' \<notin> set commandLine \<Longrightarrow> commandText commandLine = commandLine"
  by (simp add: commandText_def pipeStage_needs_bar redirectStage_needs_gt)

lemma blank_no_command:
  assumes "trim commandLine = []"
  shows "commandWord commandLine = []"
proof -
  have sp: "\<forall>c \<in> set commandLine. isSpace c"
    using assms by (simp add: trim_empty_iff list_all_iff)
  have "\<not> isSpace CHR ''|''" "\<not> isSpace CHR ''>''"
    by (simp_all add: isSpace_def)
  with sp have "CHR ''|'' \<notin> set commandLine" "CHR ''>'' \<notin> set commandLine"
    by blast+
  then have "commandText commandLine = commandLine"
    by (rule commandText_plain)
  then show ?thesis
    using assms by (simp add: commandWord_def splitWs_def)
qed

section \<open>The command history\<close>

lemma cmd_cd_history: "commandHistory (snd (cmd_cd sh args)) = commandHistory sh"
  by (simp add: cmd_cd_def Let_def split: JsValue.split FileSystemNode.split)

lemma cmd_su_history: "commandHistory (snd (cmd_su sh args)) = commandHistory sh"
  by (simp add: cmd_su_def Let_def)

lemma cmd_exit_history: "commandHistory (snd (cmd_exit sh)) = commandHistory sh"
  by (simp add: cmd_exit_def Let_def)

lemma invoke_history: "commandHistory (snd (invoke h b args sh)) = commandHistory sh"
proof (induction h b args sh rule: invoke.induct)
  case (1 h sh)
  then show ?case
    by (simp split: option.split)
next
  case (2 h a rest sh)
  then show ?case
    by (simp add: cmd_su_history split: option.split)
qed (simp_all add: cmd_cd_history cmd_su_history cmd_exit_history
      onlyFs_fields [OF cmd_mkdir_onlyFs] onlyFs_fields [OF cmd_touch_onlyFs]
      onlyFs_fields [OF cmd_rm_onlyFs])

lemma callCommand_history:
  "callCommand h sh c args = Some r \<Longrightarrow> commandHistory (snd r) = commandHistory sh"
  by (auto simp: callCommand_def invoke_history split: option.splits if_splits)

lemma cmd_cd_commands: "commands (snd (cmd_cd sh args)) = commands sh"
  by (simp add: cmd_cd_def Let_def split: JsValue.split FileSystemNode.split)

lemma cmd_su_commands: "commands (snd (cmd_su sh args)) = commands sh"
  by (simp add: cmd_su_def Let_def)

lemma cmd_exit_commands: "commands (snd (cmd_exit sh)) = commands sh"
  by (simp add: cmd_exit_def Let_def)

lemma invoke_commands: "commands (snd (invoke h b args sh)) = commands sh"
proof (induction h b args sh rule: invoke.induct)
  case (1 h sh)
  then show ?case
    by (simp split: option.split)
next
  case (2 h a rest sh)
  then show ?case
    by (simp add: cmd_su_commands split: option.split)
qed (simp_all add: cmd_cd_commands cmd_su_commands cmd_exit_commands
      onlyFs_fields [OF cmd_mkdir_onlyFs] onlyFs_fields [OF cmd_touch_onlyFs]
      onlyFs_fields [OF cmd_rm_onlyFs])

lemma callCommand_commands:
  "callCommand h sh c args = Some r \<Longrightarrow> commands (snd r) = commands sh"
  by (auto simp: callCommand_def invoke_commands split: option.splits if_splits)

lemma finish_commands: "commands (snd (finish commandLine sh output)) = commands sh"
  by (simp add: finish_def Let_def onlyFs_fields [OF writeToFile_onlyFs]
      split: option.split completion.split)

text \<open>No handler of the model changes the command table.\<close>

lemma execute_commands: "commands (snd (execute h commandLine sh)) = commands sh"
  by (auto simp: execute_def Let_def finish_commands
      split: sum.split option.split completion.split dest: callCommand_commands)

lemma finish_history: "commandHistory (snd (finish commandLine sh output)) = commandHistory sh"
  by (simp add: finish_def Let_def onlyFs_fields [OF writeToFile_onlyFs]
      split: option.split completion.split)

lemma execute_history_nonblank:
  "trim commandLine \<noteq> [] \<Longrightarrow>
   commandHistory (snd (execute h commandLine sh)) = commandHistory sh @ [commandLine]"
  by (auto simp: execute_def Let_def finish_history
      split: sum.split option.split completion.split dest: callCommand_history)

text \<open>
  Claim C3. A line that is empty or holds white space only makes \<open>execute\<close> return the
  empty string and leave the whole state, the history included, as it was. Any other line
  is appended to \<open>commandHistory\<close> exactly once, whatever the outcome: the second part
  holds of every result of \<open>execute\<close>, so also when the command is unknown, when a
  handler throws, when the redirect fails and when the wildcard stage throws.
\<close>

theorem execute_history:
  "(list_all isSpace commandLine \<longrightarrow> execute h commandLine sh = (Returned [], sh)) \<and>
   (\<not> list_all isSpace commandLine \<longrightarrow>
      commandHistory (snd (execute h commandLine sh)) = commandHistory sh @ [commandLine])"
  using execute_history_nonblank [of commandLine h sh]
  by (simp add: trim_empty_iff [symmetric] execute_def)

text \<open>
  Claim C3 on a blank line, on an unknown command, and on \<open>tree\<close> in a shell whose
  current directory does not exist (the handler throws).
\<close>

theorem execute_history_witness:
  "list_all isSpace ''  '' \<and> execute exampleHost ''  '' (newShell None ''user'') = (Returned [], newShell None ''user'')
   \<and> \<not> list_all isSpace ''frobnicate''
   \<and> commandHistory (snd (execute exampleHost ''frobnicate'' (newShell None ''user''))) = [''frobnicate'']
   \<and> fst (execute exampleHost ''frobnicate'' (newShell None ''user'')) = Returned ''frobnicate: command not found''
   \<and> \<not> list_all isSpace ''tree''
   \<and> commandHistory (snd (execute exampleHost ''tree'' ((newShell None ''user'')\<lparr>currentPath := ''/gone''\<rparr>))) = [''tree'']
   \<and> fst (execute exampleHost ''tree'' ((newShell None ''user'')\<lparr>currentPath := ''/gone''\<rparr>))
       = Returned ''Error executing tree: Cannot convert undefined or null to object''"
proof -
  have a: "list_all isSpace ''  ''" "\<not> list_all isSpace ''frobnicate''" "\<not> list_all isSpace ''tree''"
    by code_simp+
  have b: "fst (execute exampleHost ''frobnicate'' (newShell None ''user'')) = Returned ''frobnicate: command not found''"
    by code_simp
  have c: "fst (execute exampleHost ''tree'' ((newShell None ''user'')\<lparr>currentPath := ''/gone''\<rparr>))
       = Returned ''Error executing tree: Cannot convert undefined or null to object''"
    by code_simp
  have d: "commandHistory (newShell None ''user'') = []"
     "commandHistory ((newShell None ''user'')\<lparr>currentPath := ''/gone''\<rparr>) = []"
    by (simp_all add: newShell_def)
  show ?thesis
    using a b c d
      execute_history [of "''  ''" exampleHost "newShell None ''user''"]
      execute_history [of "''frobnicate''" exampleHost "newShell None ''user''"]
      execute_history [of "''tree''" exampleHost "(newShell None ''user'')\<lparr>currentPath := ''/gone''\<rparr>"]
    by simp
qed

section \<open>PWD and the current path\<close>

lemma cmd_cd_pwd:
  "PWD (environment sh) = currentPath sh \<Longrightarrow>
   PWD (environment (snd (cmd_cd sh args))) = currentPath (snd (cmd_cd sh args))"
  by (simp add: cmd_cd_def Let_def split: JsValue.split FileSystemNode.split)

lemma cmd_cd_success_pwd:
  "fst (cmd_cd sh args) = [] \<Longrightarrow>
   PWD (environment (snd (cmd_cd sh args))) = currentPath (snd (cmd_cd sh args))"
  by (auto simp: cmd_cd_def Let_def split: JsValue.splits FileSystemNode.splits if_splits)

lemma cmd_cd_moved_pwd:
  "currentPath (snd (cmd_cd sh args)) \<noteq> currentPath sh \<Longrightarrow>
   PWD (environment (snd (cmd_cd sh args))) = currentPath (snd (cmd_cd sh args))"
  by (auto simp: cmd_cd_def Let_def split: JsValue.splits FileSystemNode.splits if_splits)

lemma cmd_su_pwd:
  "PWD (environment (snd (cmd_su sh args))) = currentPath (snd (cmd_su sh args))
   \<and> currentPath (snd (cmd_su sh args)) = currentPath sh"
  by (simp add: cmd_su_def Let_def)

lemma cmd_exit_pwd:
  "PWD (environment sh) = currentPath sh \<Longrightarrow>
   PWD (environment (snd (cmd_exit sh))) = currentPath (snd (cmd_exit sh))"
  by (simp add: cmd_exit_def Let_def)

lemma cmd_exit_pop_pwd:
  "userStack sh \<noteq> [] \<Longrightarrow>
   PWD (environment (snd (cmd_exit sh))) = currentPath (snd (cmd_exit sh))"
  by (simp add: cmd_exit_def Let_def)

lemma cmd_exit_moved_pwd:
  "currentPath (snd (cmd_exit sh)) \<noteq> currentPath sh \<Longrightarrow>
   PWD (environment (snd (cmd_exit sh))) = currentPath (snd (cmd_exit sh))"
  by (auto simp: cmd_exit_def Let_def split: if_splits)

lemma invoke_pwd:
  "PWD (environment sh) = currentPath sh \<Longrightarrow>
   PWD (environment (snd (invoke h b args sh))) = currentPath (snd (invoke h b args sh))"
proof (induction h b args sh rule: invoke.induct)
  case (1 h sh)
  then show ?case
    by (simp split: option.split)
next
  case (2 h a rest sh)
  then show ?case
    by (simp add: cmd_su_pwd split: option.split)
qed (simp_all add: cmd_cd_pwd cmd_su_pwd cmd_exit_pwd
      onlyFs_fields [OF cmd_mkdir_onlyFs] onlyFs_fields [OF cmd_touch_onlyFs]
      onlyFs_fields [OF cmd_rm_onlyFs])

lemma invoke_moved_pwd:
  "currentPath (snd (invoke h b args sh)) \<noteq> currentPath sh \<Longrightarrow>
   PWD (environment (snd (invoke h b args sh))) = currentPath (snd (invoke h b args sh))"
proof (induction h b args sh rule: invoke.induct)
  case (1 h sh)
  then show ?case
    by (simp split: option.splits if_splits)
next
  case (2 h a rest sh)
  then show ?case
    by (simp add: cmd_su_pwd split: option.splits if_splits)
qed (simp_all add: cmd_cd_moved_pwd cmd_su_pwd cmd_exit_moved_pwd
      onlyFs_fields [OF cmd_mkdir_onlyFs] onlyFs_fields [OF cmd_touch_onlyFs]
      onlyFs_fields [OF cmd_rm_onlyFs])

lemma invoke_keeps_path:
  "finalHandler sh b args \<noteq> Some CmdCd \<Longrightarrow> finalHandler sh b args \<noteq> Some CmdExit \<Longrightarrow>
   currentPath (snd (invoke h b args sh)) = currentPath sh"
proof (induction h b args sh rule: invoke.induct)
  case (1 h sh)
  then show ?case
    by (auto simp: finalHandler_def split: option.splits if_splits)
next
  case (2 h a rest sh)
  then show ?case
    by (auto simp: finalHandler_def cmd_su_pwd split: option.splits if_splits)
qed (simp_all add: finalHandler_def cmd_su_pwd
      onlyFs_fields [OF cmd_mkdir_onlyFs] onlyFs_fields [OF cmd_touch_onlyFs]
      onlyFs_fields [OF cmd_rm_onlyFs])

lemma finish_fields:
  "currentUser (snd (finish commandLine sh output)) = currentUser sh
   \<and> currentPath (snd (finish commandLine sh output)) = currentPath sh
   \<and> environment (snd (finish commandLine sh output)) = environment sh
   \<and> userStack (snd (finish commandLine sh output)) = userStack sh
   \<and> commands (snd (finish commandLine sh output)) = commands sh"
  by (simp add: finish_def Let_def onlyFs_fields [OF writeToFile_onlyFs]
      split: option.split completion.split)

lemma callCommand_pwd:
  "callCommand h sh c args = Some r \<Longrightarrow> PWD (environment sh) = currentPath sh \<Longrightarrow>
   PWD (environment (snd r)) = currentPath (snd r)"
  by (auto simp: callCommand_def invoke_pwd split: option.splits if_splits)

lemma execute_pwd:
  "PWD (environment sh) = currentPath sh \<Longrightarrow>
   PWD (environment (snd (execute h commandLine sh))) = currentPath (snd (execute h commandLine sh))"
  by (auto simp: execute_def Let_def finish_fields
      split: sum.split option.split completion.split dest: callCommand_pwd)

text \<open>
  \<open>execute\<close> moves \<open>currentPath\<close> only through the handler stored under the command
  word, and then it leaves the new value in \<open>PWD\<close>.
\<close>

lemma execute_moved:
  assumes "currentPath (snd (execute h l sh)) \<noteq> currentPath sh"
  shows "\<exists>b args. map_of (commands sh) (commandWord l) = Some b
           \<and> expandWildcards h (sh\<lparr>commandHistory := commandHistory sh @ [l]\<rparr>) (rawArgs l) = Inr args
           \<and> currentPath (snd (invoke h b args
                 (sh\<lparr>commandHistory := commandHistory sh @ [l],
                     isPiped := grepPattern (pipeStage l) \<noteq> None\<rparr>))) = currentPath (snd (execute h l sh))
           \<and> environment (snd (invoke h b args
                 (sh\<lparr>commandHistory := commandHistory sh @ [l],
                     isPiped := grepPattern (pipeStage l) \<noteq> None\<rparr>))) = environment (snd (execute h l sh))"
proof -
  let ?sh1 = "sh\<lparr>commandHistory := commandHistory sh @ [l]\<rparr>"
  let ?sh2 = "sh\<lparr>commandHistory := commandHistory sh @ [l], isPiped := grepPattern (pipeStage l) \<noteq> None\<rparr>"
  have t: "trim l \<noteq> []"
    using assms by (auto simp: execute_def)
  obtain args where e: "expandWildcards h ?sh1 (rawArgs l) = Inr args"
    using assms t by (cases "expandWildcards h ?sh1 (rawArgs l)") (auto simp: execute_def Let_def)
  obtain b where b: "map_of (commands sh) (commandWord l) = Some b"
    using assms t e
    by (cases "map_of (commands sh) (commandWord l)")
       (auto simp: execute_def Let_def callCommand_def callInherited_def finish_fields
          split: if_splits)
  have c: "callCommand h ?sh2 (commandWord l) args = Some (invoke h b args ?sh2)"
    using b by (simp add: callCommand_def)
  have "currentPath (snd (invoke h b args ?sh2)) = currentPath (snd (execute h l sh))
      \<and> environment (snd (invoke h b args ?sh2)) = environment (snd (execute h l sh))"
    using t e c by (simp add: execute_def Let_def finish_fields split: completion.split)
  with b e show ?thesis by blast
qed

lemma finalHandler_cong:
  "commands sh' = commands sh \<Longrightarrow> finalHandler sh' b args = finalHandler sh b args"
proof -
  assume c: "commands sh' = commands sh"
  have "delegate sh' args = delegate sh args"
    by (induction args) (simp_all add: c split: option.split)
  then show ?thesis
    by (simp add: finalHandler_def)
qed

text \<open>
  Claim C10, as amended. \<open>PWD\<close> equals \<open>currentPath\<close> in the state the constructor
  builds, and every call of \<open>execute\<close> keeps the equality. A call of a handler leaves
  \<open>currentPath\<close> as it was unless the handler is \<open>cmd_cd\<close> or \<open>cmd_exit\<close>, or is
  \<open>cmd_sudo\<close> passing the call on to one of them; and whenever a call has changed
  \<open>currentPath\<close>, \<open>PWD\<close> holds the new value when it returns. The same holds of
  \<open>execute\<close>, for the handler stored under the command word. \<open>cmd_cd\<close> on success,
  \<open>cmd_exit\<close> on a non-empty user stack and \<open>cmd_su\<close> always write \<open>currentPath\<close>
  into \<open>PWD\<close>; \<open>cmd_su\<close> itself never changes \<open>currentPath\<close>.
\<close>

theorem pwd_follows_currentPath:
  "PWD (environment (newShell fs username)) = currentPath (newShell fs username)
   \<and> (PWD (environment sh) = currentPath sh \<longrightarrow>
        PWD (environment (snd (execute h commandLine sh))) = currentPath (snd (execute h commandLine sh)))
   \<and> (finalHandler sh b args \<noteq> Some CmdCd \<and> finalHandler sh b args \<noteq> Some CmdExit \<longrightarrow>
        currentPath (snd (invoke h b args sh)) = currentPath sh)
   \<and> (currentPath (snd (invoke h b args sh)) \<noteq> currentPath sh \<longrightarrow>
        PWD (environment (snd (invoke h b args sh))) = currentPath (snd (invoke h b args sh)))
   \<and> (currentPath (snd (execute h commandLine sh)) \<noteq> currentPath sh \<longrightarrow>
        PWD (environment (snd (execute h commandLine sh))) = currentPath (snd (execute h commandLine sh))
        \<and> (\<exists>b' args'. map_of (commands sh) (commandWord commandLine) = Some b'
              \<and> expandWildcards h (sh\<lparr>commandHistory := commandHistory sh @ [commandLine]\<rparr>)
                   (rawArgs commandLine) = Inr args'
              \<and> (finalHandler sh b' args' = Some CmdCd \<or> finalHandler sh b' args' = Some CmdExit)))
   \<and> (fst (cmd_cd sh args) = [] \<longrightarrow>
        PWD (environment (snd (cmd_cd sh args))) = currentPath (snd (cmd_cd sh args)))
   \<and> (userStack sh \<noteq> [] \<longrightarrow>
        PWD (environment (snd (cmd_exit sh))) = currentPath (snd (cmd_exit sh)))
   \<and> PWD (environment (snd (cmd_su sh args))) = currentPath (snd (cmd_su sh args))
   \<and> currentPath (snd (cmd_su sh args)) = currentPath sh"
proof -
  let ?sh2 = "sh\<lparr>commandHistory := commandHistory sh @ [commandLine],
                 isPiped := grepPattern (pipeStage commandLine) \<noteq> None\<rparr>"
  have a: "PWD (environment (newShell fs username)) = currentPath (newShell fs username)"
    by (simp add: newShell_def)
  have e: "currentPath (snd (execute h commandLine sh)) \<noteq> currentPath sh \<longrightarrow>
        PWD (environment (snd (execute h commandLine sh))) = currentPath (snd (execute h commandLine sh))
        \<and> (\<exists>b' args'. map_of (commands sh) (commandWord commandLine) = Some b'
              \<and> expandWildcards h (sh\<lparr>commandHistory := commandHistory sh @ [commandLine]\<rparr>)
                   (rawArgs commandLine) = Inr args'
              \<and> (finalHandler sh b' args' = Some CmdCd \<or> finalHandler sh b' args' = Some CmdExit))"
  proof
    assume m: "currentPath (snd (execute h commandLine sh)) \<noteq> currentPath sh"
    obtain b' args' where x: "map_of (commands sh) (commandWord commandLine) = Some b'"
      "expandWildcards h (sh\<lparr>commandHistory := commandHistory sh @ [commandLine]\<rparr>) (rawArgs commandLine) = Inr args'"
      "currentPath (snd (invoke h b' args' ?sh2)) = currentPath (snd (execute h commandLine sh))"
      "environment (snd (invoke h b' args' ?sh2)) = environment (snd (execute h commandLine sh))"
      using execute_moved [OF m] by blast
    have n: "currentPath (snd (invoke h b' args' ?sh2)) \<noteq> currentPath ?sh2"
      using m x(3) by simp
    have p: "PWD (environment (snd (execute h commandLine sh))) = currentPath (snd (execute h commandLine sh))"
      using invoke_moved_pwd [OF n] x(3,4) by simp
    have "finalHandler ?sh2 b' args' = Some CmdCd \<or> finalHandler ?sh2 b' args' = Some CmdExit"
      using n invoke_keeps_path [of ?sh2 b' args' h] by blast
    moreover have "finalHandler ?sh2 b' args' = finalHandler sh b' args'"
      by (rule finalHandler_cong) simp
    ultimately show "PWD (environment (snd (execute h commandLine sh))) = currentPath (snd (execute h commandLine sh))
        \<and> (\<exists>b' args'. map_of (commands sh) (commandWord commandLine) = Some b'
              \<and> expandWildcards h (sh\<lparr>commandHistory := commandHistory sh @ [commandLine]\<rparr>)
                   (rawArgs commandLine) = Inr args'
              \<and> (finalHandler sh b' args' = Some CmdCd \<or> finalHandler sh b' args' = Some CmdExit))"
      using p x(1,2) by auto
  qed
  show ?thesis
    using a e execute_pwd [of sh h commandLine] invoke_keeps_path [of sh b args h]
      invoke_moved_pwd [of h b args sh]
      cmd_cd_success_pwd [of sh args] cmd_exit_pop_pwd [of sh] cmd_su_pwd [of sh args]
    by blast
qed

text \<open>
  Claim C10, as amended, in the default shell of \<open>user\<close>: on the line \<open>sudo cd /tmp\<close>, on
  the calls \<open>sudo mkdir docs\<close> and \<open>sudo cd /tmp\<close> of the handler, on \<open>cd /etc\<close>, and
  on \<open>su alice\<close> followed by \<open>exit\<close>.
\<close>

theorem pwd_follows_currentPath_witness:
  "PWD (environment (newShell None ''user'')) = currentPath (newShell None ''user'')
   \<and> currentPath (snd (execute exampleHost ''sudo cd /tmp'' (newShell None ''user''))) = ''/tmp''
   \<and> currentPath (newShell None ''user'') = ''/home/user''
   \<and> PWD (environment (snd (execute exampleHost ''sudo cd /tmp'' (newShell None ''user'')))) = ''/tmp''
   \<and> finalHandler (newShell None ''user'') CmdSudo [''mkdir'', ''docs''] = Some CmdMkdir
   \<and> currentPath (snd (invoke exampleHost CmdSudo [''mkdir'', ''docs''] (newShell None ''user''))) = ''/home/user''
   \<and> currentPath (snd (invoke exampleHost CmdSudo [''cd'', ''/tmp''] (newShell None ''user''))) = ''/tmp''
   \<and> PWD (environment (snd (invoke exampleHost CmdSudo [''cd'', ''/tmp''] (newShell None ''user'')))) = ''/tmp''
   \<and> fst (cmd_cd (newShell None ''user'') [''/etc'']) = []
   \<and> PWD (environment (snd (cmd_cd (newShell None ''user'') [''/etc'']))) = ''/etc''
   \<and> userStack (snd (cmd_su (newShell None ''user'') [''alice''])) \<noteq> []
   \<and> PWD (environment (snd (cmd_exit (snd (cmd_su (newShell None ''user'') [''alice''])))))
       = currentPath (snd (cmd_exit (snd (cmd_su (newShell None ''user'') [''alice'']))))"
proof -
  have a: "PWD (environment (newShell None ''user'')) = currentPath (newShell None ''user'')"
    "currentPath (newShell None ''user'') = ''/home/user''"
    by (simp_all add: newShell_def)
  have b: "currentPath (snd (execute exampleHost ''sudo cd /tmp'' (newShell None ''user''))) = ''/tmp''"
    by code_simp
  have c: "finalHandler (newShell None ''user'') CmdSudo [''mkdir'', ''docs''] = Some CmdMkdir"
    by code_simp
  have d: "currentPath (snd (invoke exampleHost CmdSudo [''cd'', ''/tmp''] (newShell None ''user''))) = ''/tmp''"
    by code_simp
  have e: "fst (cmd_cd (newShell None ''user'') [''/etc'']) = []"
    "currentPath (snd (cmd_cd (newShell None ''user'') [''/etc''])) = ''/etc''"
    by code_simp+
  have f: "userStack (snd (cmd_su (newShell None ''user'') [''alice''])) \<noteq> []"
    by (simp add: cmd_su_def Let_def)
  show ?thesis
    using a b c d e f
      pwd_follows_currentPath [of None "''user''" "newShell None ''user''" exampleHost "''sudo cd /tmp''"
        CmdSudo "[''mkdir'', ''docs'']"]
      pwd_follows_currentPath [of None "''user''" "newShell None ''user''" exampleHost "''sudo cd /tmp''"
        CmdSudo "[''cd'', ''/tmp'']"]
      pwd_follows_currentPath [of None "''user''" "newShell None ''user''" exampleHost "''sudo cd /tmp''"
        CmdCd "[''/etc'']"]
      pwd_follows_currentPath [of None "''user''" "snd (cmd_su (newShell None ''user'') [''alice''])"
        exampleHost "''sudo cd /tmp''" CmdCd "[''/etc'']"]
    by simp
qed

text \<open>
  Claim C10 as stated names \<open>cd\<close>, \<open>su\<close> and \<open>exit\<close> as the only built-ins that
  change \<open>currentPath\<close>. \<open>sudo\<close> is a built-in of the command table, none of those
  three, and \<open>sudo cd /tmp\<close> moves \<open>currentPath\<close> from \<open>/home/user\<close> to \<open>/tmp\<close>.
\<close>

theorem sudo_cd_counterexample:
  "commandWord ''sudo cd /tmp'' = ''sudo''
   \<and> map_of (commands (newShell None ''user'')) ''sudo'' = Some CmdSudo
   \<and> CmdSudo \<noteq> CmdCd \<and> CmdSudo \<noteq> CmdSu \<and> CmdSudo \<noteq> CmdExit
   \<and> currentPath (newShell None ''user'') = ''/home/user''
   \<and> currentPath (snd (invoke exampleHost CmdSudo [''cd'', ''/tmp''] (newShell None ''user''))) = ''/tmp''
   \<and> currentPath (snd (execute exampleHost ''sudo cd /tmp'' (newShell None ''user''))) = ''/tmp''"
  by code_simp

section \<open>su and exit\<close>

lemma su_exit_restores:
  "currentUser (snd (cmd_exit (snd (cmd_su sh args)))) = currentUser sh
   \<and> HOME (environment (snd (cmd_exit (snd (cmd_su sh args))))) = HOME (environment sh)
   \<and> currentPath (snd (cmd_exit (snd (cmd_su sh args)))) = currentPath sh
   \<and> userStack (snd (cmd_exit (snd (cmd_su sh args)))) = userStack sh"
  by (simp add: cmd_su_def cmd_exit_def Let_def)

lemma exit_line:
  "trim ''exit'' \<noteq> []" "commandWord ''exit'' = ''exit''" "rawArgs ''exit'' = []"
  "grepPattern (pipeStage ''exit'') = None" "redirectStage (restLine (pipeStage ''exit'')) = None"
  by code_simp+

lemma execute_exit:
  "map_of (commands sh) ''exit'' = Some CmdExit \<Longrightarrow>
   execute h ''exit'' sh =
     (Returned (fst (cmd_exit (sh\<lparr>commandHistory := commandHistory sh @ [''exit''], isPiped := False\<rparr>))),
      (snd (cmd_exit (sh\<lparr>commandHistory := commandHistory sh @ [''exit''], isPiped := False\<rparr>)))
        \<lparr>isPiped := False\<rparr>)"
  by (simp add: execute_def Let_def exit_line finish_def callCommand_def)

lemma cmd_exit_fields:
  "userStack sh' = userStack sh \<Longrightarrow>
   currentUser (snd (cmd_exit sh')) = (if userStack sh = [] then currentUser sh' else user (last (userStack sh)))
   \<and> currentPath (snd (cmd_exit sh')) = (if userStack sh = [] then currentPath sh' else path (last (userStack sh)))
   \<and> HOME (environment (snd (cmd_exit sh'))) = (if userStack sh = [] then HOME (environment sh') else home (last (userStack sh)))"
  by (simp add: cmd_exit_def Let_def)

lemma execute_su_state:
  assumes "commandWord commandLine = ''su''" "\<And>m. fst (execute h commandLine sh) \<noteq> Thrown m"
    "map_of (commands sh) ''su'' = Some CmdSu"
  shows "userStack (snd (execute h commandLine sh))
           = userStack sh @ [\<lparr>user = currentUser sh, home = HOME (environment sh), path = currentPath sh\<rparr>]"
proof -
  have t: "trim commandLine \<noteq> []"
    using assms(1) blank_no_command [of commandLine] by auto
  let ?sh1 = "sh\<lparr>commandHistory := commandHistory sh @ [commandLine]\<rparr>"
  obtain args where e: "expandWildcards h ?sh1 (rawArgs commandLine) = Inr args"
  proof (cases "expandWildcards h ?sh1 (rawArgs commandLine)")
    case (Inl msg)
    then have "fst (execute h commandLine sh) = Thrown msg"
      using t by (simp add: execute_def Let_def)
    with assms(2) show ?thesis by blast
  next
    case (Inr args)
    then show ?thesis using that by blast
  qed
  show ?thesis
    using t e
    by (simp add: execute_def Let_def assms(1,3) callCommand_def finish_fields cmd_su_def)
qed

lemma execute_su_then_exit:
  assumes "commandWord commandLine = ''su''" "\<And>m. fst (execute h commandLine sh) \<noteq> Thrown m"
    "map_of (commands sh) ''su'' = Some CmdSu" "map_of (commands sh) ''exit'' = Some CmdExit"
  shows "currentUser (snd (execute h' ''exit'' (snd (execute h commandLine sh)))) = currentUser sh
     \<and> HOME (environment (snd (execute h' ''exit'' (snd (execute h commandLine sh))))) = HOME (environment sh)
     \<and> currentPath (snd (execute h' ''exit'' (snd (execute h commandLine sh)))) = currentPath sh"
proof -
  have "map_of (commands (snd (execute h commandLine sh))) ''exit'' = Some CmdExit"
    using assms(4) by (simp add: execute_commands)
  then show ?thesis
    using execute_su_state [OF assms(1-3)]
    by (simp add: execute_exit cmd_exit_def Let_def)
qed

lemma splitWsAux_word:
  "\<forall>c \<in> set w. \<not> isSpace c \<Longrightarrow> splitWsAux cur inws w = [rev cur @ w]"
  by (induction w arbitrary: cur inws) simp_all

lemma trim_su_word:
  assumes "w \<noteq> []" "\<forall>c \<in> set w. \<not> isSpace c"
  shows "trim (''su '' @ w) = ''su '' @ w"
proof -
  obtain v c where vc: "w = v @ [c]"
    using assms(1) by (cases w rule: rev_cases) auto
  then have "\<not> isSpace c"
    using assms(2) by simp
  then have "dropWhile isSpace (rev (''su '' @ w)) = rev (''su '' @ w)"
    by (simp add: vc)
  moreover have "dropWhile isSpace (''su '' @ w) = ''su '' @ w"
    by (simp add: isSpace_def)
  ultimately show ?thesis
    by (simp only: trim_def rev_rev_ident)
qed

lemma su_word_line:
  assumes "plainWord w"
  shows "commandWord (''su '' @ w) = ''su''" "rawArgs (''su '' @ w) = [w]"
    "grepPattern (pipeStage (''su '' @ w)) = None"
    "redirectStage (restLine (pipeStage (''su '' @ w))) = None"
    "trim (''su '' @ w) \<noteq> []" "\<not> hasWildcard w" "\<not> noArg [w]"
proof -
  have w: "w \<noteq> []" "\<forall>c \<in> set w. \<not> isSpace c" "CHR ''|'' \<notin> set w" "CHR ''>'' \<notin> set w"
    "CHR ''*'' \<notin> set w" "CHR ''?'' \<notin> set w"
    using assms by (auto simp: plainWord_def list_all_iff)
  define l where "l = ''su '' @ w"
  have bar: "CHR ''|'' \<notin> set l" and gt: "CHR ''>'' \<notin> set l"
    using w by (simp_all add: l_def)
  have ct: "commandText l = l"
    using bar gt by (rule commandText_plain)
  have tr: "trim l = l"
    unfolding l_def by (rule trim_su_word [OF w(1,2)])
  have sp: "splitWs l = [''su'', w]"
    using w(2) by (simp add: l_def splitWs_def isSpace_def splitWsAux_word)
  have "commandWord l = ''su''"
    by (simp add: commandWord_def ct tr sp)
  then show "commandWord (''su '' @ w) = ''su''"
    unfolding l_def .
  have "rawArgs l = [w]"
    by (simp add: rawArgs_def ct tr sp)
  then show "rawArgs (''su '' @ w) = [w]"
    unfolding l_def .
  have "grepPattern (pipeStage l) = None"
    by (simp add: pipeStage_needs_bar [OF bar])
  then show "grepPattern (pipeStage (''su '' @ w)) = None"
    unfolding l_def .
  have "redirectStage (restLine (pipeStage l)) = None"
    using gt by (simp add: pipeStage_needs_bar [OF bar] redirectStage_needs_gt)
  then show "redirectStage (restLine (pipeStage (''su '' @ w))) = None"
    unfolding l_def .
  have "trim l \<noteq> []"
    unfolding tr by (simp add: l_def)
  then show "trim (''su '' @ w) \<noteq> []"
    unfolding l_def .
  show "\<not> hasWildcard w"
    using w by (simp add: hasWildcard_def)
  show "\<not> noArg [w]"
    using w by (simp add: noArg_def)
qed

lemma execute_dispatch:
  assumes "trim l \<noteq> []" "commandWord l = c" "rawArgs l = as"
    "expandWildcards h (sh\<lparr>commandHistory := commandHistory sh @ [l]\<rparr>) as = Inr args"
    "map_of (commands sh) c = Some b"
  shows "execute h l sh =
     (let r = invoke h b args (sh\<lparr>commandHistory := commandHistory sh @ [l],
                                   isPiped := grepPattern (pipeStage l) \<noteq> None\<rparr>)
      in case fst r of
           Thrown msg \<Rightarrow> (Returned (''Error executing '' @ c @ '': '' @ msg), snd r)
         | Foreign \<Rightarrow> (Foreign, snd r)
         | Returned output \<Rightarrow> finish l ((snd r)\<lparr>isPiped := False\<rparr>) output)"
  using assms by (simp add: execute_def Let_def callCommand_def)

lemma execute_su_word:
  assumes "plainWord w" "map_of (commands sh) ''su'' = Some CmdSu"
  shows "fst (execute h (''su '' @ w) sh) = Returned (''__USER_SWITCHED__:'' @ w)
    \<and> currentUser (snd (execute h (''su '' @ w) sh)) = w"
proof -
  note f = su_word_line [OF assms(1)]
  have e: "expandWildcards h (sh\<lparr>commandHistory := commandHistory sh @ [''su '' @ w]\<rparr>) [w] = Inr [w]"
    using f(6) by (simp add: expandArg_def)
  show ?thesis
    unfolding execute_dispatch [OF f(5) f(1) f(2) e assms(2)]
    using f(3,4,7)
    by (simp add: Let_def finish_def cmd_su_def)
qed

text \<open>
  Claim C5. \<open>cmd_su\<close> followed by \<open>cmd_exit\<close> restores \<open>currentUser\<close>,
  \<open>environment.HOME\<close> and \<open>currentPath\<close>, from every state and for every argument
  list; with an empty user stack \<open>cmd_exit\<close> returns its message and leaves the whole
  state as it was. Through \<open>execute\<close>, in a state whose command table holds the two
  handlers under \<open>su\<close> and \<open>exit\<close>: for every user name \<open>w\<close> that is a plain word, the
  line \<open>su w\<close> switches to \<open>w\<close>, and \<open>exit\<close> right after it restores the three values;
  with an empty user stack the line \<open>exit\<close> returns the message and leaves
  \<open>currentUser\<close>, the environment, \<open>currentPath\<close> and the filesystem unchanged.
\<close>

theorem su_exit_pairing:
  "currentUser (snd (cmd_exit (snd (cmd_su sh args)))) = currentUser sh
   \<and> HOME (environment (snd (cmd_exit (snd (cmd_su sh args))))) = HOME (environment sh)
   \<and> currentPath (snd (cmd_exit (snd (cmd_su sh args)))) = currentPath sh
   \<and> (userStack sh = [] \<longrightarrow> cmd_exit sh = (''exit: no other user session to return to'', sh))
   \<and> (map_of (commands sh) ''su'' = Some CmdSu \<and> map_of (commands sh) ''exit'' = Some CmdExit
        \<and> plainWord w \<longrightarrow>
        fst (execute h (''su '' @ w) sh) = Returned (''__USER_SWITCHED__:'' @ w)
        \<and> currentUser (snd (execute h (''su '' @ w) sh)) = w
        \<and> currentUser (snd (execute h ''exit'' (snd (execute h (''su '' @ w) sh)))) = currentUser sh
        \<and> HOME (environment (snd (execute h ''exit'' (snd (execute h (''su '' @ w) sh)))))
            = HOME (environment sh)
        \<and> currentPath (snd (execute h ''exit'' (snd (execute h (''su '' @ w) sh)))) = currentPath sh)
   \<and> (map_of (commands sh) ''exit'' = Some CmdExit \<and> userStack sh = [] \<longrightarrow>
        fst (execute h ''exit'' sh) = Returned ''exit: no other user session to return to''
        \<and> currentUser (snd (execute h ''exit'' sh)) = currentUser sh
        \<and> environment (snd (execute h ''exit'' sh)) = environment sh
        \<and> currentPath (snd (execute h ''exit'' sh)) = currentPath sh
        \<and> fileSystem (snd (execute h ''exit'' sh)) = fileSystem sh)"
proof (intro conjI impI)
  show "currentUser (snd (cmd_exit (snd (cmd_su sh args)))) = currentUser sh"
    "HOME (environment (snd (cmd_exit (snd (cmd_su sh args))))) = HOME (environment sh)"
    "currentPath (snd (cmd_exit (snd (cmd_su sh args)))) = currentPath sh"
    using su_exit_restores [of sh args] by simp_all
next
  assume "userStack sh = []"
  then show "cmd_exit sh = (''exit: no other user session to return to'', sh)"
    by (simp add: cmd_exit_def)
next
  assume a: "map_of (commands sh) ''su'' = Some CmdSu \<and> map_of (commands sh) ''exit'' = Some CmdExit
        \<and> plainWord w"
  then have w: "plainWord w" and su: "map_of (commands sh) ''su'' = Some CmdSu"
    and ex: "map_of (commands sh) ''exit'' = Some CmdExit"
    by simp_all
  show r: "fst (execute h (''su '' @ w) sh) = Returned (''__USER_SWITCHED__:'' @ w)"
    and "currentUser (snd (execute h (''su '' @ w) sh)) = w"
    using execute_su_word [OF w su, of h] by simp_all
  have nt: "\<And>m. fst (execute h (''su '' @ w) sh) \<noteq> Thrown m"
    unfolding r by simp
  note x = execute_su_then_exit [OF su_word_line(1) [OF w] nt su ex, of h]
  show "currentUser (snd (execute h ''exit'' (snd (execute h (''su '' @ w) sh)))) = currentUser sh"
    "HOME (environment (snd (execute h ''exit'' (snd (execute h (''su '' @ w) sh)))))
            = HOME (environment sh)"
    "currentPath (snd (execute h ''exit'' (snd (execute h (''su '' @ w) sh)))) = currentPath sh"
    using x by simp_all
next
  assume e: "map_of (commands sh) ''exit'' = Some CmdExit \<and> userStack sh = []"
  show "fst (execute h ''exit'' sh) = Returned ''exit: no other user session to return to''"
    "currentUser (snd (execute h ''exit'' sh)) = currentUser sh"
    "environment (snd (execute h ''exit'' sh)) = environment sh"
    "currentPath (snd (execute h ''exit'' sh)) = currentPath sh"
    "fileSystem (snd (execute h ''exit'' sh)) = fileSystem sh"
    using e by (simp_all add: execute_exit cmd_exit_def)
qed

text \<open>Claim C5 on \<open>su alice\<close> and \<open>exit\<close> from the default shell of \<open>user\<close>.\<close>

theorem su_exit_pairing_witness:
  "map_of (commands (newShell None ''user'')) ''su'' = Some CmdSu
   \<and> map_of (commands (newShell None ''user'')) ''exit'' = Some CmdExit
   \<and> plainWord ''alice''
   \<and> fst (execute exampleHost ''su alice'' (newShell None ''user'')) = Returned ''__USER_SWITCHED__:alice''
   \<and> currentUser (snd (execute exampleHost ''su alice'' (newShell None ''user''))) = ''alice''
   \<and> currentUser (snd (execute exampleHost ''exit'' (snd (execute exampleHost ''su alice'' (newShell None ''user''))))) = ''user''
   \<and> HOME (environment (snd (execute exampleHost ''exit'' (snd (execute exampleHost ''su alice'' (newShell None ''user'')))))) = ''/home/user''
   \<and> currentPath (snd (execute exampleHost ''exit'' (snd (execute exampleHost ''su alice'' (newShell None ''user''))))) = ''/home/user''
   \<and> userStack (newShell None ''user'') = []
   \<and> cmd_exit (newShell None ''user'') = (''exit: no other user session to return to'', newShell None ''user'')
   \<and> fst (execute exampleHost ''exit'' (newShell None ''user'')) = Returned ''exit: no other user session to return to''
   \<and> currentUser (snd (execute exampleHost ''exit'' (newShell None ''user''))) = ''user''
   \<and> fileSystem (snd (execute exampleHost ''exit'' (newShell None ''user''))) = createDefaultFileSystem ''user''"
proof -
  have a: "plainWord ''alice''"
    "map_of (commands (newShell None ''user'')) ''su'' = Some CmdSu"
    "map_of (commands (newShell None ''user'')) ''exit'' = Some CmdExit"
    by code_simp+
  have b: "userStack (newShell None ''user'') = []" "currentUser (newShell None ''user'') = ''user''"
    "HOME (environment (newShell None ''user'')) = ''/home/user''"
    "currentPath (newShell None ''user'') = ''/home/user''"
    "fileSystem (newShell None ''user'') = createDefaultFileSystem ''user''"
    by (simp_all add: newShell_def)
  show ?thesis
    using a b su_exit_pairing [of "newShell None ''user''" "[''alice'']" "''alice''" exampleHost]
    by simp
qed

section \<open>Redirects and the filesystem\<close>

lemma splitOn_nodelim: "d \<notin> set w \<Longrightarrow> splitOn d w = [w]"
  by (induction w) auto

lemma splitOn_append: "d \<notin> set w \<Longrightarrow> splitOn d (w @ d # rest) = w # splitOn d rest"
  by (induction w) auto

lemma splitOn_segments: "w \<in> set (splitOn d s) \<Longrightarrow> d \<notin> set w"
  by (induction s arbitrary: w) (auto split: if_splits list.splits)

lemma pathParts_segments: "seg \<in> set (pathParts p) \<Longrightarrow> seg \<noteq> [] \<and> CHR ''/'' \<notin> set seg"
  using splitOn_segments [of seg "CHR ''/''" p] by (auto simp: pathParts_def)

lemma pathParts_slash: "pathParts (CHR ''/'' # s) = pathParts s"
  by (simp add: pathParts_def)

lemma pathParts_join:
  "\<forall>seg \<in> set segs. seg \<noteq> [] \<and> CHR ''/'' \<notin> set seg \<Longrightarrow> pathParts (join ''/'' segs) = segs"
proof (induction segs)
  case Nil
  show ?case by (simp add: pathParts_def)
next
  case (Cons x xs)
  show ?case
  proof (cases xs)
    case Nil
    with Cons.prems show ?thesis by (simp add: pathParts_def splitOn_nodelim)
  next
    case (Cons y ys)
    have "pathParts (join ''/'' xs) = xs"
      using Cons.IH Cons.prems by simp
    moreover have "splitOn CHR ''/'' (x @ CHR ''/'' # join ''/'' xs) = x # splitOn CHR ''/'' (join ''/'' xs)"
      using Cons.prems by (simp add: splitOn_append)
    ultimately show ?thesis
      using Cons.prems Cons by (simp add: pathParts_def)
  qed
qed

lemma pathParts_absolute:
  "\<forall>seg \<in> set segs. seg \<noteq> [] \<and> CHR ''/'' \<notin> set seg \<Longrightarrow> pathParts (CHR ''/'' # join ''/'' segs) = segs"
  by (simp add: pathParts_slash pathParts_join)

lemma resolvePath_absolute: "resolvePath sh (CHR ''/'' # s) = CHR ''/'' # s"
  by (simp add: resolvePath_def startsWith_def)

lemma map_of_setKey: "map_of (setKey k v es) k' = (if k' = k then Some v else map_of es k')"
  by (induction es) auto

lemma walk_outside:
  "v = Null \<or> v = NativeFunction \<or> v = ObjectPrototype \<Longrightarrow> walk v segs \<noteq> Node n"
proof (induction segs arbitrary: v)
  case Nil
  then show ?case by auto
next
  case (Cons seg segs)
  have "walk Null segs \<noteq> Node n" "walk NativeFunction segs \<noteq> Node n"
    by (simp_all add: Cons.IH)
  with Cons.prems show ?case by (auto split: if_splits)
qed

lemma walk_modifyDir:
  "walk (Node n) ps = Node (Directory es) \<Longrightarrow>
   walk (Node (modifyDir ps f n)) ps = Node (Directory (f es))"
proof (induction ps arbitrary: n)
  case Nil
  then show ?case by simp
next
  case (Cons seg segs)
  show ?case
  proof (cases n)
    case (File c)
    with Cons.prems show ?thesis by simp
  next
    case (Directory es0)
    show ?thesis
    proof (cases "map_of es0 seg")
      case None
      have "walk ObjectPrototype segs \<noteq> Node (Directory es)"
        "walk NativeFunction segs \<noteq> Node (Directory es)"
        by (simp_all add: walk_outside)
      with Cons.prems Directory None show ?thesis
        by (simp split: if_splits)
    next
      case (Some n')
      with Cons.prems Directory have "walk (Node n') segs = Node (Directory es)"
        by simp
      then have "walk (Node (modifyDir segs f n')) segs = Node (Directory (f es))"
        by (rule Cons.IH)
      with Directory Some show ?thesis
        by (simp add: map_of_setKey)
    qed
  qed
qed

lemma walk_append: "walk v (ps @ qs) = walk (walk v ps) qs"
proof (induction v ps rule: walk.induct)
  case (1 v)
  show ?case by simp
next
  case (2 es seg segs)
  then show ?case
    by (cases qs) (simp_all split: option.split)
next
  case (3 seg segs)
  then show ?case
    by (cases qs) simp_all
next
  case (4 c seg segs)
  show ?case by (cases qs) simp_all
next
  case (5 seg segs)
  show ?case by (cases qs) simp_all
next
  case (6 seg segs)
  show ?case by (cases qs) simp_all
qed

lemma modifyDir_Directory: "\<exists>es'. modifyDir ps f (Directory es) = Directory es'"
  by (cases ps) (auto split: option.splits)

lemma getNode_currentPath:
  "startsWith (currentPath sh) ''/'' \<Longrightarrow> getNode sh (currentPath sh) = currentDirectory sh"
  by (cases "currentPath sh") (auto simp: getNode_def currentDirectory_def startsWith_def resolvePath_def)

lemma resolvePath_fileName:
  assumes "fileName n"
  shows "resolvePath sh n = CHR ''/'' # join ''/'' (pathParts (currentPath sh) @ [n])"
proof -
  have "\<not> startsWith n ''~''" "\<not> startsWith n ''/''"
    using assms by (cases n; auto simp: fileName_def startsWith_def)+
  moreover have "pathParts n = [n]"
    using assms by (simp add: fileName_def pathParts_def splitOn_nodelim)
  ultimately show ?thesis
    using assms by (simp add: resolvePath_def foldPart_def fileName_def)
qed

lemma pathParts_resolve_fileName:
  assumes "fileName n"
  shows "pathParts (resolvePath sh n) = pathParts (currentPath sh) @ [n]"
proof -
  have "\<forall>seg \<in> set (pathParts (currentPath sh) @ [n]). seg \<noteq> [] \<and> CHR ''/'' \<notin> set seg"
    using assms pathParts_segments [of _ "currentPath sh"] by (auto simp: fileName_def)
  then show ?thesis
    unfolding resolvePath_fileName [OF assms] by (rule pathParts_absolute)
qed

lemma getNode_fileName:
  assumes "fileName n"
  shows "getNode sh n = walk (currentDirectory sh) [n]"
  by (simp add: getNode_def pathParts_resolve_fileName [OF assms] walk_append currentDirectory_def)

lemma getNode_parent:
  "getNode sh (CHR ''/'' # join ''/'' (pathParts (currentPath sh))) = currentDirectory sh"
proof -
  have "\<forall>seg \<in> set (pathParts (currentPath sh)). seg \<noteq> [] \<and> CHR ''/'' \<notin> set seg"
    using pathParts_segments [of _ "currentPath sh"] by auto
  then have "pathParts (CHR ''/'' # join ''/'' (pathParts (currentPath sh))) = pathParts (currentPath sh)"
    by (rule pathParts_absolute)
  then show ?thesis
    by (simp add: getNode_def currentDirectory_def resolvePath_absolute)
qed

lemma updateDirectory_parent:
  assumes "currentDirectory sh = Node (Directory es)"
  shows "currentDirectory (updateDirectory sh (CHR ''/'' # join ''/'' (pathParts (currentPath sh))) f)
         = Node (Directory (f es))"
proof -
  have "\<forall>seg \<in> set (pathParts (currentPath sh)). seg \<noteq> [] \<and> CHR ''/'' \<notin> set seg"
    using pathParts_segments [of _ "currentPath sh"] by auto
  then have p: "pathParts (CHR ''/'' # join ''/'' (pathParts (currentPath sh))) = pathParts (currentPath sh)"
    by (rule pathParts_absolute)
  obtain es' where m: "modifyDir (pathParts (currentPath sh)) f (Directory (fileSystem sh)) = Directory es'"
    using modifyDir_Directory by blast
  have "walk (Node (modifyDir (pathParts (currentPath sh)) f (Directory (fileSystem sh)))) (pathParts (currentPath sh))
        = Node (Directory (f es))"
    using assms by (simp add: currentDirectory_def walk_modifyDir)
  then show ?thesis
    using p m by (simp add: updateDirectory_def currentDirectory_def resolvePath_absolute)
qed

lemma writeToFile_currentDirectory:
  assumes "fileName n" "currentDirectory sh = Node (Directory es)"
    "\<And>d. map_of es n \<noteq> Some (Directory d)" "\<not> inherited n"
  shows "fst (writeToFile sh n content m) = Returned None"
    "currentDirectory (snd (writeToFile sh n content m))
       = Node (Directory (setKey n (File (case map_of es n of
                                            Some (File old) \<Rightarrow> if m = Append then old @ content else content
                                          | _ \<Rightarrow> content)) es))"
proof -
  have pp: "popParts (pathParts (resolvePath sh n)) = (n, pathParts (currentPath sh))"
    by (simp add: pathParts_resolve_fileName [OF assms(1)] popParts_def)
  have np: "n \<noteq> ''__proto__''"
    using assms(4) by (auto simp: inherited_def inheritedNames_def)
  show "fst (writeToFile sh n content m) = Returned None"
    using assms(2,3,4) np
    by (simp add: writeToFile_def Let_def pp getNode_parent split: option.split FileSystemNode.split)
  show "currentDirectory (snd (writeToFile sh n content m))
       = Node (Directory (setKey n (File (case map_of es n of
                                            Some (File old) \<Rightarrow> if m = Append then old @ content else content
                                          | _ \<Rightarrow> content)) es))"
    using assms(2,3,4) np
    by (simp add: writeToFile_def Let_def pp getNode_parent updateDirectory_parent [OF assms(2)]
        split: option.split FileSystemNode.split)
qed

lemma fileName_f: "fileName ''f.txt''" "\<not> inherited ''f.txt''"
  by (simp_all add: fileName_def inherited_def inheritedNames_def)

lemma cat_line:
  "trim ''cat f.txt'' \<noteq> []" "commandWord ''cat f.txt'' = ''cat''" "rawArgs ''cat f.txt'' = [''f.txt'']"
  "grepPattern (pipeStage ''cat f.txt'') = None" "redirectStage (restLine (pipeStage ''cat f.txt'')) = None"
  by code_simp+

lemma echo_lines:
  "trim (echoTo ''A'' ''>'') \<noteq> []" "commandWord (echoTo ''A'' ''>'') = ''echo''"
  "rawArgs (echoTo ''A'' ''>'') = [dq @ ''A'' @ dq]" "grepPattern (pipeStage (echoTo ''A'' ''>'')) = None"
  "redirectStage (restLine (pipeStage (echoTo ''A'' ''>''))) = Some (Overwrite, ''f.txt'', ''echo '' @ dq @ ''A'' @ dq)"
  "trim (echoTo ''B'' ''>'') \<noteq> []" "commandWord (echoTo ''B'' ''>'') = ''echo''"
  "rawArgs (echoTo ''B'' ''>'') = [dq @ ''B'' @ dq]" "grepPattern (pipeStage (echoTo ''B'' ''>'')) = None"
  "redirectStage (restLine (pipeStage (echoTo ''B'' ''>''))) = Some (Overwrite, ''f.txt'', ''echo '' @ dq @ ''B'' @ dq)"
  "trim (echoTo ''C'' ''>>'') \<noteq> []" "commandWord (echoTo ''C'' ''>>'') = ''echo''"
  "rawArgs (echoTo ''C'' ''>>'') = [dq @ ''C'' @ dq]" "grepPattern (pipeStage (echoTo ''C'' ''>>'')) = None"
  "redirectStage (restLine (pipeStage (echoTo ''C'' ''>>''))) = Some (Append, ''f.txt'', ''echo '' @ dq @ ''C'' @ dq)"
  "cmd_echo [dq @ ''A'' @ dq] = ''A''" "cmd_echo [dq @ ''B'' @ dq] = ''B''" "cmd_echo [dq @ ''C'' @ dq] = ''C''"
  "\<not> hasWildcard (dq @ ''A'' @ dq)" "\<not> hasWildcard (dq @ ''B'' @ dq)" "\<not> hasWildcard (dq @ ''C'' @ dq)"
  "\<not> hasWildcard ''f.txt''"
  by code_simp+

lemma currentDirectory_cong:
  "fileSystem sh' = fileSystem sh \<Longrightarrow> currentPath sh' = currentPath sh \<Longrightarrow>
   currentDirectory sh' = currentDirectory sh"
  by (simp add: currentDirectory_def)

lemma execute_cat:
  assumes "currentDirectory sh = Node (Directory es)" "map_of es ''f.txt'' = Some (File c)"
    "map_of (commands sh) ''cat'' = Some CmdCat"
  shows "fst (execute h ''cat f.txt'' sh) = Returned c"
    "currentDirectory (snd (execute h ''cat f.txt'' sh)) = currentDirectory sh"
    "currentPath (snd (execute h ''cat f.txt'' sh)) = currentPath sh"
proof -
  have e: "expandWildcards h (sh\<lparr>commandHistory := commandHistory sh @ [''cat f.txt'']\<rparr>) [''f.txt''] = Inr [''f.txt'']"
    using echo_lines(22) by (simp add: expandArg_def)
  let ?s = "sh\<lparr>commandHistory := commandHistory sh @ [''cat f.txt''], isPiped := False\<rparr>"
  have cd: "currentDirectory ?s = Node (Directory es)"
    using assms(1) by (simp add: currentDirectory_def)
  have g: "getNode ?s ''f.txt'' = Node (File c)"
    using assms(2) by (simp add: getNode_fileName [OF fileName_f(1)] cd)
  have x: "execute h ''cat f.txt'' sh = (Returned c, ?s)"
    unfolding execute_dispatch [OF cat_line(1) cat_line(2) cat_line(3) e assms(3)]
    using g by (simp add: cat_line finish_def cmd_cat_def noArg_def)
  show "fst (execute h ''cat f.txt'' sh) = Returned c"
    "currentDirectory (snd (execute h ''cat f.txt'' sh)) = currentDirectory sh"
    "currentPath (snd (execute h ''cat f.txt'' sh)) = currentPath sh"
    unfolding x by (simp_all add: currentDirectory_def)
qed

lemma execute_echo:
  assumes "trim l \<noteq> []" "commandWord l = ''echo''" "rawArgs l = [a]" "\<not> hasWildcard a"
    "grepPattern (pipeStage l) = None" "redirectStage (restLine (pipeStage l)) = Some (m, ''f.txt'', x)"
    "currentDirectory sh = Node (Directory es)" "\<And>d. map_of es ''f.txt'' \<noteq> Some (Directory d)"
    "map_of (commands sh) ''echo'' = Some CmdEcho"
  shows "fst (execute h l sh) = Returned []"
    "currentDirectory (snd (execute h l sh))
       = Node (Directory (setKey ''f.txt'' (File (case map_of es ''f.txt'' of
                     Some (File old) \<Rightarrow> if m = Append then old @ cmd_echo [a] else cmd_echo [a]
                   | _ \<Rightarrow> cmd_echo [a])) es))"
    "currentPath (snd (execute h l sh)) = currentPath sh"
proof -
  have e: "expandWildcards h (sh\<lparr>commandHistory := commandHistory sh @ [l]\<rparr>) [a] = Inr [a]"
    using assms(4) by (simp add: expandArg_def)
  let ?s = "sh\<lparr>commandHistory := commandHistory sh @ [l], isPiped := False\<rparr>"
  have cd: "currentDirectory ?s = Node (Directory es)"
    using assms(7) by (simp add: currentDirectory_def)
  note w = writeToFile_currentDirectory [OF fileName_f(1) cd assms(8) fileName_f(2), of "cmd_echo [a]" m]
  have x: "execute h l sh = (Returned [], snd (writeToFile ?s ''f.txt'' (cmd_echo [a]) m))"
    unfolding execute_dispatch [OF assms(1) assms(2) assms(3) e assms(9)]
    using w(1) by (simp add: assms(5,6) finish_def Let_def)
  show "fst (execute h l sh) = Returned []"
    unfolding x by simp
  show "currentDirectory (snd (execute h l sh))
       = Node (Directory (setKey ''f.txt'' (File (case map_of es ''f.txt'' of
                     Some (File old) \<Rightarrow> if m = Append then old @ cmd_echo [a] else cmd_echo [a]
                   | _ \<Rightarrow> cmd_echo [a])) es))"
    unfolding x using w(2) by simp
  show "currentPath (snd (execute h l sh)) = currentPath sh"
    unfolding x using onlyFs_fields [OF writeToFile_onlyFs, of ?s "''f.txt''" "cmd_echo [a]" m] by simp
qed

text \<open>
  Claim C4. In a state whose current path is absolute and leads to a directory without an
  entry \<open>f.txt\<close>, and whose command table holds the two handlers under \<open>echo\<close> and
  \<open>cat\<close>: \<open>echo "A" > f.txt\<close> and then \<open>cat f.txt\<close> returns exactly \<open>A\<close>;
  \<open>echo "B" > f.txt\<close> and then \<open>cat f.txt\<close> returns exactly \<open>B\<close>; \<open>echo "C" >> f.txt\<close>
  and then \<open>cat f.txt\<close> returns \<open>BC\<close>, the old content followed by the new output with
  nothing between them. Each redirected \<open>echo\<close> itself returns the empty string. The
  redirect asks for no write permission (\<open>writeToFile\<close> has no such check), so the theorem
  needs no hypothesis on it.
\<close>

theorem redirect_round_trip:
  assumes "startsWith (currentPath sh) ''/''"
    and "getNode sh (currentPath sh) = Node (Directory es)"
    and "\<not> hasKey es ''f.txt''"
    and "map_of (commands sh) ''echo'' = Some CmdEcho"
    and "map_of (commands sh) ''cat'' = Some CmdCat"
  shows "(let s1 = snd (execute h (echoTo ''A'' ''>'') sh);
              s2 = snd (execute h ''cat f.txt'' s1);
              s3 = snd (execute h (echoTo ''B'' ''>'') s2);
              s4 = snd (execute h ''cat f.txt'' s3);
              s5 = snd (execute h (echoTo ''C'' ''>>'') s4)
          in fst (execute h (echoTo ''A'' ''>'') sh) = Returned []
             \<and> fst (execute h ''cat f.txt'' s1) = Returned ''A''
             \<and> fst (execute h (echoTo ''B'' ''>'') s2) = Returned []
             \<and> fst (execute h ''cat f.txt'' s3) = Returned ''B''
             \<and> fst (execute h (echoTo ''C'' ''>>'') s4) = Returned []
             \<and> fst (execute h ''cat f.txt'' s5) = Returned ''BC'')"
proof -
  define s1 where "s1 = snd (execute h (echoTo ''A'' ''>'') sh)"
  define s2 where "s2 = snd (execute h ''cat f.txt'' s1)"
  define s3 where "s3 = snd (execute h (echoTo ''B'' ''>'') s2)"
  define s4 where "s4 = snd (execute h ''cat f.txt'' s3)"
  define s5 where "s5 = snd (execute h (echoTo ''C'' ''>>'') s4)"
  define es1 where "es1 = setKey ''f.txt'' (File ''A'') es"
  define es3 where "es3 = setKey ''f.txt'' (File ''B'') es1"
  define es5 where "es5 = setKey ''f.txt'' (File ''BC'') es3"
  have t: "commands s1 = commands sh" "commands s2 = commands sh" "commands s3 = commands sh"
    "commands s4 = commands sh" "commands s5 = commands sh"
    by (simp_all add: s1_def s2_def s3_def s4_def s5_def execute_commands)
  have d0: "currentDirectory sh = Node (Directory es)"
    using assms(1,2) by (simp add: getNode_currentPath)
  have n0: "map_of es ''f.txt'' = None"
    using assms(3) by (simp add: hasKey_def)
  then have nd0: "\<And>d. map_of es ''f.txt'' \<noteq> Some (Directory d)"
    by simp
  note a = execute_echo [OF echo_lines(1) echo_lines(2) echo_lines(3) echo_lines(19) echo_lines(4)
      echo_lines(5) d0 nd0 assms(4), of h]
  have r1: "fst (execute h (echoTo ''A'' ''>'') sh) = Returned []"
    by (rule a(1))
  have d1: "currentDirectory s1 = Node (Directory es1)"
    unfolding s1_def es1_def using a(2) [unfolded echo_lines(16)] by (simp add: n0)
  have f1: "map_of es1 ''f.txt'' = Some (File ''A'')"
    by (simp add: es1_def map_of_setKey)
  have c1: "map_of (commands s1) ''cat'' = Some CmdCat" "map_of (commands s2) ''echo'' = Some CmdEcho"
    "map_of (commands s3) ''cat'' = Some CmdCat" "map_of (commands s4) ''echo'' = Some CmdEcho"
    "map_of (commands s5) ''cat'' = Some CmdCat"
    using assms(4,5) by (simp_all add: t)
  note b = execute_cat [OF d1 f1 c1(1), of h]
  have r2: "fst (execute h ''cat f.txt'' s1) = Returned ''A''"
    by (rule b(1))
  have d2: "currentDirectory s2 = Node (Directory es1)"
    unfolding s2_def using b(2) d1 by simp
  have nd1: "\<And>d. map_of es1 ''f.txt'' \<noteq> Some (Directory d)"
    by (simp add: f1)
  note c = execute_echo [OF echo_lines(6) echo_lines(7) echo_lines(8) echo_lines(20) echo_lines(9)
      echo_lines(10) d2 nd1 c1(2), of h]
  have r3: "fst (execute h (echoTo ''B'' ''>'') s2) = Returned []"
    by (rule c(1))
  have d3: "currentDirectory s3 = Node (Directory es3)"
    unfolding s3_def es3_def using c(2) [unfolded echo_lines(17)] by (simp add: f1)
  have f3: "map_of es3 ''f.txt'' = Some (File ''B'')"
    by (simp add: es3_def map_of_setKey)
  note d = execute_cat [OF d3 f3 c1(3), of h]
  have r4: "fst (execute h ''cat f.txt'' s3) = Returned ''B''"
    by (rule d(1))
  have d4: "currentDirectory s4 = Node (Directory es3)"
    unfolding s4_def using d(2) d3 by simp
  have nd3: "\<And>d. map_of es3 ''f.txt'' \<noteq> Some (Directory d)"
    by (simp add: f3)
  note e = execute_echo [OF echo_lines(11) echo_lines(12) echo_lines(13) echo_lines(21) echo_lines(14)
      echo_lines(15) d4 nd3 c1(4), of h]
  have r5: "fst (execute h (echoTo ''C'' ''>>'') s4) = Returned []"
    by (rule e(1))
  have d5: "currentDirectory s5 = Node (Directory es5)"
    unfolding s5_def es5_def using e(2) [unfolded echo_lines(18)] by (simp add: f3)
  have f5: "map_of es5 ''f.txt'' = Some (File ''BC'')"
    by (simp add: es5_def map_of_setKey)
  have r6: "fst (execute h ''cat f.txt'' s5) = Returned ''BC''"
    by (rule execute_cat(1) [OF d5 f5 c1(5)])
  show ?thesis
    using r1 r2 r3 r4 r5 r6
    unfolding Let_def s1_def s2_def s3_def s4_def s5_def by blast
qed

text \<open>Claim C4 in the home directory of the default shell of \<open>user\<close>.\<close>

theorem redirect_round_trip_witness:
  "startsWith (currentPath (newShell None ''user'')) ''/''
   \<and> getNode (newShell None ''user'') (currentPath (newShell None ''user''))
       = Node (Directory [(''README.md'', File (''# Welcome'' @ [CHR 0x0A, CHR 0x0A]
              @ ''This is a simple Unix shell emulator.'' @ [CHR 0x0A])),
          (''example.txt'', File (''This is an example file.'' @ [CHR 0x0A]))])
   \<and> \<not> hasKey [(''README.md'', File (''# Welcome'' @ [CHR 0x0A, CHR 0x0A]
              @ ''This is a simple Unix shell emulator.'' @ [CHR 0x0A])),
          (''example.txt'', File (''This is an example file.'' @ [CHR 0x0A]))] ''f.txt''
   \<and> map_of (commands (newShell None ''user'')) ''echo'' = Some CmdEcho
   \<and> map_of (commands (newShell None ''user'')) ''cat'' = Some CmdCat
   \<and> (let s1 = snd (execute exampleHost (echoTo ''A'' ''>'') (newShell None ''user''));
              s2 = snd (execute exampleHost ''cat f.txt'' s1);
              s3 = snd (execute exampleHost (echoTo ''B'' ''>'') s2);
              s4 = snd (execute exampleHost ''cat f.txt'' s3);
              s5 = snd (execute exampleHost (echoTo ''C'' ''>>'') s4)
          in fst (execute exampleHost (echoTo ''A'' ''>'') (newShell None ''user'')) = Returned []
             \<and> fst (execute exampleHost ''cat f.txt'' s1) = Returned ''A''
             \<and> fst (execute exampleHost (echoTo ''B'' ''>'') s2) = Returned []
             \<and> fst (execute exampleHost ''cat f.txt'' s3) = Returned ''B''
             \<and> fst (execute exampleHost (echoTo ''C'' ''>>'') s4) = Returned []
             \<and> fst (execute exampleHost ''cat f.txt'' s5) = Returned ''BC'')"
proof -
  have a: "startsWith (currentPath (newShell None ''user'')) ''/''"
    by code_simp
  have b: "getNode (newShell None ''user'') (currentPath (newShell None ''user''))
       = Node (Directory [(''README.md'', File (''# Welcome'' @ [CHR 0x0A, CHR 0x0A]
              @ ''This is a simple Unix shell emulator.'' @ [CHR 0x0A])),
          (''example.txt'', File (''This is an example file.'' @ [CHR 0x0A]))])"
    by code_simp
  have c: "\<not> hasKey [(''README.md'', File (''# Welcome'' @ [CHR 0x0A, CHR 0x0A]
              @ ''This is a simple Unix shell emulator.'' @ [CHR 0x0A])),
          (''example.txt'', File (''This is an example file.'' @ [CHR 0x0A]))] ''f.txt''"
    by code_simp
  have d: "map_of (commands (newShell None ''user'')) ''echo'' = Some CmdEcho"
    by code_simp
  have e: "map_of (commands (newShell None ''user'')) ''cat'' = Some CmdCat"
    by code_simp
  show ?thesis
    using a b c d e redirect_round_trip [OF a b c d e, of exampleHost] by blast
qed

section \<open>The grep filter\<close>

lemma startsWith_prefix: "startsWith s p = prefix p s"
  by (auto simp: startsWith_def prefix_def) (metis append_eq_conv_conj)

lemma includes_str_sublist: "includes_str s p = sublist p s"
  by (induction s) (simp_all add: startsWith_prefix sublist_Cons_right)

lemma grepKeeps_spec:
  "grepKeeps pat flags line =
     ((if ignoreCase flags then sublist (toLowerCase pat) (toLowerCase line) else sublist pat line)
        \<noteq> invert flags)"
  by (auto simp: grepKeeps_def Let_def includes_str_sublist)

lemma applyGrep_spec: "applyGrep pat flags output = grepFilterSpec pat flags output"
proof (cases "output = []")
  case True
  have "join nl (filter (grepKeeps pat flags) [[]]) = []"
    by simp
  then show ?thesis
    using True by (simp add: applyGrep_def grepFilterSpec_def Let_def grepKeeps_spec [symmetric] endsWith_def nl_def)
next
  case False
  then show ?thesis
    by (simp add: applyGrep_def grepFilterSpec_def Let_def grepKeeps_spec [abs_def])
qed

lemma grepPart_flags:
  "ignoreCase (snd (foldl grepPart st toks)) = (ignoreCase (snd st) \<or> ''-i'' \<in> set toks)
   \<and> invert (snd (foldl grepPart st toks)) = (invert (snd st) \<or> ''-v'' \<in> set toks)"
  by (induction toks arbitrary: st) (auto simp: grepPart_def)

lemma pipeStage_flags:
  "ignoreCase (grepFlags (pipeStage l)) = (''-i'' \<in> set (grepParts (pipeStage l)))
   \<and> invert (grepFlags (pipeStage l)) = (''-v'' \<in> set (grepParts (pipeStage l)))"
  by (simp add: pipeStage_def Let_def grepPart_flags)

text \<open>
  Claim C7. Let \<open>execute\<close> detect a pipe to grep with pattern \<open>pat\<close> on the line \<open>l\<close>,
  and let the handler of the command return \<open>output\<close>. The flags are those of the
  tokens: case is ignored exactly when \<open>-i\<close> is among them, the test is inverted exactly
  when \<open>-v\<close> is. Without a redirect \<open>execute\<close> returns \<open>grepFilterSpec\<close> of the
  output: the lines obtained by splitting on newlines, kept or dropped by the substring
  test, joined with newlines, less one trailing newline when the result ends in two.
  With a redirect the same filtered text is what is written to the target.
\<close>

theorem pipe_to_grep:
  assumes "trim l \<noteq> []"
    and "grepPattern (pipeStage l) = Some pat"
    and "expandWildcards h (sh\<lparr>commandHistory := commandHistory sh @ [l]\<rparr>) (rawArgs l) = Inr args"
    and "map_of (commands sh) (commandWord l) = Some b"
    and "fst (invoke h b args (sh\<lparr>commandHistory := commandHistory sh @ [l], isPiped := True\<rparr>))
           = Returned output"
  shows "ignoreCase (grepFlags (pipeStage l)) = (''-i'' \<in> set (grepParts (pipeStage l)))
     \<and> invert (grepFlags (pipeStage l)) = (''-v'' \<in> set (grepParts (pipeStage l)))
     \<and> (redirectStage (restLine (pipeStage l)) = None \<longrightarrow>
          fst (execute h l sh) = Returned (grepFilterSpec pat (grepFlags (pipeStage l)) output))
     \<and> (\<forall>m f x. redirectStage (restLine (pipeStage l)) = Some (m, f, x) \<and> f \<noteq> [] \<longrightarrow>
          snd (execute h l sh)
            = snd (writeToFile
                ((snd (invoke h b args (sh\<lparr>commandHistory := commandHistory sh @ [l], isPiped := True\<rparr>)))
                   \<lparr>isPiped := False\<rparr>)
                f (grepFilterSpec pat (grepFlags (pipeStage l)) output) m))"
proof -
  have x: "execute h l sh =
      finish l ((snd (invoke h b args (sh\<lparr>commandHistory := commandHistory sh @ [l], isPiped := True\<rparr>)))
                   \<lparr>isPiped := False\<rparr>) output"
    unfolding execute_dispatch [OF assms(1) refl refl assms(3) assms(4)]
    using assms(2,5) by (simp add: Let_def)
  show ?thesis
    unfolding x
    by (simp add: pipeStage_flags finish_def assms(2) applyGrep_spec Let_def
        split: completion.split option.split)
qed

text \<open>
  Claim C7 on \<open>ls | grep -i readme\<close> where \<open>ls\<close> lists \<open>README.md\<close> and
  \<open>notes.txt\<close>: only the line \<open>README.md\<close> is returned.
\<close>

theorem pipe_to_grep_witness:
  "trim ''ls | grep -i readme'' \<noteq> []
   \<and> grepPattern (pipeStage ''ls | grep -i readme'') = Some ''readme''
   \<and> expandWildcards exampleHost (notesShell\<lparr>commandHistory := commandHistory notesShell @ [''ls | grep -i readme'']\<rparr>)
        (rawArgs ''ls | grep -i readme'') = Inr []
   \<and> map_of (commands notesShell) (commandWord ''ls | grep -i readme'') = Some CmdLs
   \<and> fst (invoke exampleHost CmdLs []
        (notesShell\<lparr>commandHistory := commandHistory notesShell @ [''ls | grep -i readme''], isPiped := True\<rparr>))
       = Returned (''README.md'' @ nl @ ''notes.txt'')
   \<and> ''-i'' \<in> set (grepParts (pipeStage ''ls | grep -i readme''))
   \<and> ignoreCase (grepFlags (pipeStage ''ls | grep -i readme''))
   \<and> redirectStage (restLine (pipeStage ''ls | grep -i readme'')) = None
   \<and> grepFilterSpec ''readme'' (grepFlags (pipeStage ''ls | grep -i readme'')) (''README.md'' @ nl @ ''notes.txt'')
       = ''README.md''
   \<and> fst (execute exampleHost ''ls | grep -i readme'' notesShell) = Returned ''README.md''"
proof -
  have a: "trim ''ls | grep -i readme'' \<noteq> []"
    by code_simp
  have b: "grepPattern (pipeStage ''ls | grep -i readme'') = Some ''readme''"
    by code_simp
  have c: "expandWildcards exampleHost (notesShell\<lparr>commandHistory := commandHistory notesShell @ [''ls | grep -i readme'']\<rparr>)
        (rawArgs ''ls | grep -i readme'') = Inr []"
    by code_simp
  have d: "map_of (commands notesShell) (commandWord ''ls | grep -i readme'') = Some CmdLs"
    by code_simp
  have e: "fst (invoke exampleHost CmdLs []
        (notesShell\<lparr>commandHistory := commandHistory notesShell @ [''ls | grep -i readme''], isPiped := True\<rparr>))
       = Returned (''README.md'' @ nl @ ''notes.txt'')"
    by code_simp
  have f: "''-i'' \<in> set (grepParts (pipeStage ''ls | grep -i readme''))"
    by code_simp
  have g: "redirectStage (restLine (pipeStage ''ls | grep -i readme'')) = None"
    by code_simp
  have i: "grepFilterSpec ''readme'' (grepFlags (pipeStage ''ls | grep -i readme'')) (''README.md'' @ nl @ ''notes.txt'')
       = ''README.md''"
    by code_simp
  show ?thesis
    using a b c d e f g i pipe_to_grep [OF a b c d e] by simp
qed

section \<open>The editor: delete-motions and the cursor\<close>

lemma storeDeleted_lines: "lines (storeDeleted ed d n) = lines ed"
  by (simp add: storeDeleted_def Let_def)

lemma clampRow_lines: "lines (clampRow ed) = lines ed"
  by (simp add: clampRow_def)

lemma ensureLine_lines: "lines (ensureLine ed) \<noteq> []"
  by (simp add: ensureLine_def)

lemma setLine_lines: "lines ed \<noteq> [] \<Longrightarrow> lines (setLine ed v) \<noteq> []"
  by (simp add: setLine_def)

lemma deleteLines_lines: "lines (deleteLines ed) \<noteq> []"
  by (simp add: deleteLines_def storeDeleted_lines clampRow_lines ensureLine_lines)

lemma deleteDown_lines: "deleteDown ed = Inr ed' \<Longrightarrow> lines ed' \<noteq> []"
  by (auto simp: deleteDown_def storeDeleted_lines clampRow_lines ensureLine_lines deleteLines_lines
      split: if_splits)

lemma deleteUp_lines: "deleteUp ed = Inr ed' \<Longrightarrow> lines ed' \<noteq> []"
  by (auto simp: deleteUp_def Let_def storeDeleted_lines clampRow_lines ensureLine_lines
      split: if_splits)

lemma deleteToEnd_lines: "lines ed \<noteq> [] \<Longrightarrow> deleteToEnd ed = Inr ed' \<Longrightarrow> lines ed' \<noteq> []"
  by (auto simp: deleteToEnd_def storeDeleted_lines setLine_lines split: option.splits)

lemma deleteToStart_lines: "lines ed \<noteq> [] \<Longrightarrow> deleteToStart ed = Inr ed' \<Longrightarrow> lines ed' \<noteq> []"
  by (auto simp: deleteToStart_def storeDeleted_lines setLine_def split: option.splits)

lemma deleteWord_lines: "lines ed \<noteq> [] \<Longrightarrow> deleteWord ed = Inr ed' \<Longrightarrow> lines ed' \<noteq> []"
  by (auto simp: deleteWord_def storeDeleted_lines setLine_lines split: option.splits)

lemma deleteRight_lines: "lines ed \<noteq> [] \<Longrightarrow> deleteRight ed = Inr ed' \<Longrightarrow> lines ed' \<noteq> []"
  by (auto simp: deleteRight_def storeDeleted_lines setLine_lines split: option.splits if_splits)

lemma deleteLeft_lines: "lines ed \<noteq> [] \<Longrightarrow> deleteLeft ed = Inr ed' \<Longrightarrow> lines ed' \<noteq> []"
  by (auto simp: deleteLeft_def storeDeleted_lines setLine_def split: option.splits if_splits)

lemma handleDeleteMotion_lines:
  assumes "lines ed \<noteq> []" "handleDeleteMotion ed k = Inr ed'"
  shows "lines ed' \<noteq> []"
proof -
  consider (dd) "handleDeleteMotion ed k = Inr (deleteLines ed)"
    | (down) "handleDeleteMotion ed k = deleteDown ed"
    | (up) "handleDeleteMotion ed k = deleteUp ed"
    | (toEnd) "handleDeleteMotion ed k = deleteToEnd ed"
    | (toStart) "handleDeleteMotion ed k = deleteToStart ed"
    | (word) "handleDeleteMotion ed k = deleteWord ed"
    | (right) "handleDeleteMotion ed k = deleteRight ed"
    | (left) "handleDeleteMotion ed k = deleteLeft ed"
    | (cancel) "handleDeleteMotion ed k = Inr (ed\<lparr>normalModeBuffer := []\<rparr>)"
    unfolding handleDeleteMotion_def by presburger
  then show ?thesis
  proof cases
    case dd
    with assms(2) show ?thesis using deleteLines_lines by auto
  next
    case down
    with assms(2) show ?thesis using deleteDown_lines by auto
  next
    case up
    with assms(2) show ?thesis using deleteUp_lines by auto
  next
    case toEnd
    with assms show ?thesis using deleteToEnd_lines by auto
  next
    case toStart
    with assms show ?thesis using deleteToStart_lines by auto
  next
    case word
    with assms show ?thesis using deleteWord_lines by auto
  next
    case right
    with assms show ?thesis using deleteRight_lines by auto
  next
    case left
    with assms show ?thesis using deleteLeft_lines by auto
  next
    case cancel
    with assms show ?thesis by auto
  qed
qed

lemma deleteLines_single:
  assumes "lines ed = [l]" "cursorRow ed = 0"
  shows "lines (deleteLines ed) = [[]]" "cursorRow (deleteLines ed) = 0" "cursorCol (deleteLines ed) = 0"
    "l \<noteq> [] \<Longrightarrow> yankBuffer (deleteLines ed) = Some l \<and> modified (deleteLines ed)"
    "l = [] \<Longrightarrow> yankBuffer (deleteLines ed) = yankBuffer ed \<and> modified (deleteLines ed) = modified ed"
  using assms
  by (simp_all add: deleteLines_def storeDeleted_def clampRow_def ensureLine_def jsSplice_def
      jsPosition_def currentLine_def jsIndex_def Let_def)

lemma press_d:
  assumes "mode ed = Normal" "normalModeBuffer ed \<noteq> ''d''" "key e = ''d''" "\<not> shiftKey e"
  shows "handleKey ed e = Inr (ed\<lparr>message := [], normalModeBuffer := ''d''\<rparr>)"
  using assms by (simp add: handleKey_def handleNormalMode_def Let_def)

lemma press_dd:
  assumes "mode ed = Normal" "normalModeBuffer ed = ''d''" "key e = ''d''"
  shows "handleKey ed e = Inr (deleteLines (ed\<lparr>message := []\<rparr>))"
  using assms by (simp add: handleKey_def handleNormalMode_def handleDeleteMotion_def Let_def)

lemma dd_single_line:
  assumes "mode ed = Normal" "normalModeBuffer ed \<noteq> ''d''" "lines ed = [l]" "cursorRow ed = 0"
    "key e1 = ''d''" "\<not> shiftKey e1" "key e2 = ''d''"
  shows "\<exists>ed1 ed2. handleKey ed e1 = Inr ed1 \<and> handleKey ed1 e2 = Inr ed2
          \<and> lines ed2 = [[]] \<and> cursorRow ed2 = 0 \<and> cursorCol ed2 = 0
          \<and> (l \<noteq> [] \<longrightarrow> yankBuffer ed2 = Some l \<and> modified ed2)
          \<and> (l = [] \<longrightarrow> yankBuffer ed2 = yankBuffer ed \<and> modified ed2 = modified ed)"
proof -
  define ed1 where "ed1 = ed\<lparr>message := [], normalModeBuffer := ''d''\<rparr>"
  define ed2 where "ed2 = deleteLines (ed1\<lparr>message := []\<rparr>)"
  have s1: "handleKey ed e1 = Inr ed1"
    unfolding ed1_def using assms press_d by blast
  have s2: "handleKey ed1 e2 = Inr ed2"
    unfolding ed2_def using assms by (intro press_dd) (simp_all add: ed1_def)
  have l1: "lines (ed1\<lparr>message := []\<rparr>) = [l]" "cursorRow (ed1\<lparr>message := []\<rparr>) = 0"
    using assms by (simp_all add: ed1_def)
  note d = deleteLines_single [OF l1]
  have "lines ed2 = [[]]" "cursorRow ed2 = 0" "cursorCol ed2 = 0"
    unfolding ed2_def using d(1-3) by simp_all
  moreover have "l \<noteq> [] \<longrightarrow> yankBuffer ed2 = Some l \<and> modified ed2"
    unfolding ed2_def using d(4) by simp
  moreover have "l = [] \<longrightarrow> yankBuffer ed2 = yankBuffer ed \<and> modified ed2 = modified ed"
    unfolding ed2_def using d(5) by (simp add: ed1_def)
  ultimately show ?thesis
    using s1 s2 by blast
qed

text \<open>
  Claim C9 says that a completed delete-motion leaves at least one line, and that \<open>d\<close>,
  \<open>d\<close> on a buffer of one line leaves \<open>[""]\<close> with the cursor at row 0, column 0,
  the deleted text in the yank buffer and the modified flag set. The buffer and the
  cursor are as claimed (\<open>handleDeleteMotion_lines\<close>, \<open>dd_single_line\<close>). The yank
  buffer and the flag are written under \<open>if (deletedContent)\<close>, which is false of the
  empty string, so a deleted empty line is not recorded:
  \<^item> on the one empty line of a new file, \<open>d\<close>, \<open>d\<close> give back the initial state, the
    flag off;
  \<^item> on the buffer \<open>""\<close>, \<open>x\<close> they remove the first line and leave the flag off and the
    message empty, so that \<open>:q\<close> then closes the editor with nothing saved;
  \<^item> on the line \<open>foo\<close>, after \<open>Y\<close> and \<open>D\<close> have yanked and emptied it, they leave
    \<open>foo\<close> in the yank buffer, not the deleted text.
\<close>

theorem dd_on_empty_line_not_recorded:
  "lines (newEditor ''f'' []) = [[]]
   \<and> pressKeys (newEditor ''f'' []) [plainKey ''d'', plainKey ''d''] = Inr (newEditor ''f'' [])
   \<and> \<not> modified (newEditor ''f'' [])
   \<and> lines (newEditor ''f'' (nl @ ''x'')) = [[], ''x'']
   \<and> pressKeys (newEditor ''f'' (nl @ ''x'')) [plainKey ''d'', plainKey ''d'']
       = Inr \<lparr>filename = ''f'', lines = [''x''], cursorRow = 0, cursorCol = 0,
            mode = Normal, commandBuffer = [], normalModeBuffer = [], yankBuffer = Some [],
            message = [], modified = False, saved = [], closed = False\<rparr>
   \<and> pressKeys (newEditor ''f'' (nl @ ''x''))
         [plainKey ''d'', plainKey ''d'', plainKey '':'', plainKey ''q'', plainKey ''Enter'']
       = Inr \<lparr>filename = ''f'', lines = [''x''], cursorRow = 0, cursorCol = 0,
            mode = Command, commandBuffer = [], normalModeBuffer = [], yankBuffer = Some [],
            message = [], modified = False, saved = [], closed = True\<rparr>
   \<and> pressKeys (newEditor ''f'' ''foo'')
         [(plainKey ''y'')\<lparr>shiftKey := True\<rparr>, (plainKey ''d'')\<lparr>shiftKey := True\<rparr>]
       = Inr \<lparr>filename = ''f'', lines = [[]], cursorRow = 0, cursorCol = 0,
            mode = Normal, commandBuffer = [], normalModeBuffer = [], yankBuffer = Some ''foo'',
            message = [], modified = True, saved = [], closed = False\<rparr>
   \<and> pressKeys (newEditor ''f'' ''foo'')
         [(plainKey ''y'')\<lparr>shiftKey := True\<rparr>, (plainKey ''d'')\<lparr>shiftKey := True\<rparr>,
          plainKey ''d'', plainKey ''d'']
       = Inr \<lparr>filename = ''f'', lines = [[]], cursorRow = 0, cursorCol = 0,
            mode = Normal, commandBuffer = [], normalModeBuffer = [], yankBuffer = Some ''foo'',
            message = [], modified = True, saved = [], closed = False\<rparr>"
  by code_simp

text \<open>
  Claim C8 says that after every key the column is at most the length of the cursor's
  line. The vertical motions \<open>j\<close> and \<open>k\<close> clamp the column to the line they reach;
  \<open>p\<close> (and \<open>Shift+G\<close>) move the row without it. On the buffer \<open>ab\<close>, \<open>hello\<close>,
  \<open>x\<close> the keys \<open>d\<close>, \<open>d\<close>, \<open>$\<close>, \<open>p\<close> end on row 1, the pasted line \<open>ab\<close> of
  length 2, in column 5.
\<close>

theorem paste_leaves_column_out_of_bounds:
  "\<exists>ed. pressKeys (newEditor ''f'' (''ab'' @ nl @ ''hello'' @ nl @ ''x''))
           [plainKey ''d'', plainKey ''d'', plainKey ''$'', plainKey ''p''] = Inr ed
        \<and> lines ed = [''hello'', ''ab'', ''x''] \<and> cursorRow ed = 1 \<and> cursorCol ed = 5
        \<and> \<not> cursorInBounds ed"
proof -
  have "pressKeys (newEditor ''f'' (''ab'' @ nl @ ''hello'' @ nl @ ''x''))
           [plainKey ''d'', plainKey ''d'', plainKey ''$'', plainKey ''p'']
        = Inr \<lparr>filename = ''f'', lines = [''hello'', ''ab'', ''x''], cursorRow = 1, cursorCol = 5,
            mode = Normal, commandBuffer = [], normalModeBuffer = [], yankBuffer = Some ''ab'',
            message = [], modified = True, saved = [], closed = False\<rparr>"
    by code_simp
  moreover have "\<not> cursorInBounds \<lparr>filename = ''f'', lines = [''hello'', ''ab'', ''x''], cursorRow = 1, cursorCol = 5,
            mode = Normal, commandBuffer = [], normalModeBuffer = [], yankBuffer = Some ''ab'',
            message = [], modified = True, saved = [], closed = False\<rparr>"
    by (simp add: cursorInBounds_def)
  ultimately show ?thesis by simp
qed

section \<open>Wildcard expansion\<close>

lemma firstSome_some: "firstSome xs \<noteq> None \<longleftrightarrow> (\<exists>x \<in> set xs. x \<noteq> None)"
  by (induction xs rule: firstSome.induct) auto

lemma takeWhile_length_iff:
  "k \<le> length (takeWhile P xs) \<longleftrightarrow> k \<le> length xs \<and> list_all P (take k xs)"
proof (induction xs arbitrary: k)
  case Nil
  show ?case by simp
next
  case (Cons x xs)
  show ?case
    using Cons.IH by (cases k) auto
qed

lemma repeat_star:
  "(matcher inp (Seq (Repeat True 0 None cl) r) k pos caps \<noteq> None)
     = (\<exists>j \<le> length (takeWhile (classMatches cl) (drop pos inp)). matcher inp r k (pos + j) caps \<noteq> None)"
proof -
  let ?run = "length (takeWhile (classMatches cl) (drop pos inp))"
  have "matcher inp (Seq (Repeat True 0 None cl) r) k pos caps
        = firstSome (map (\<lambda>j. matcher inp r k (pos + j) caps) (rev [0..<Suc ?run]))"
    by (simp add: Let_def del: upt_Suc)
  moreover have "(firstSome (map (\<lambda>j. matcher inp r k (pos + j) caps) (rev [0..<Suc ?run])) \<noteq> None)
        = (\<exists>j \<in> set [0..<Suc ?run]. matcher inp r k (pos + j) caps \<noteq> None)"
    unfolding firstSome_some by (simp del: upt_Suc not_None_eq)
  moreover have "(\<exists>j \<in> set [0..<Suc ?run]. matcher inp r k (pos + j) caps \<noteq> None)
        = (\<exists>j \<le> ?run. matcher inp r k (pos + j) caps \<noteq> None)"
    by (auto simp del: upt_Suc not_None_eq simp: less_Suc_eq_le)
  ultimately show ?thesis by (simp only:)
qed

lemma atom_step:
  "pos < length inp \<Longrightarrow>
   (matcher inp (Seq (Atom cl) r) k pos caps \<noteq> None)
     = (classMatches cl (inp ! pos) \<and> matcher inp r k (Suc pos) caps \<noteq> None)"
  by (simp del: not_None_eq)

lemma atom_end: "\<not> pos < length inp \<Longrightarrow> matcher inp (Seq (Atom cl) r) k pos caps = None"
  by simp

lemma globItem_atom:
  "c \<noteq> CHR ''*'' \<Longrightarrow>
   \<exists>cl. globItem c = Atom cl
      \<and> (\<forall>x. classMatches cl x = (if c = CHR ''?'' \<or> c = CHR ''.'' then \<not> isLineTerminator x else x = c))"
  by (simp add: globItem_def)

lemma glob_matcher:
  "pos \<le> length inp \<Longrightarrow>
   (matcher inp (seqs (map globItem arg)) (\<lambda>p c. Some (p, c)) pos caps \<noteq> None)
     = globMatches arg (drop pos inp)"
proof (induction arg arbitrary: pos caps)
  case Nil
  then show ?case by (auto simp: seqs_def)
next
  case (Cons c cs)
  have s: "seqs (map globItem (c # cs)) = Seq (globItem c) (seqs (map globItem cs))"
    by (simp add: seqs_def)
  show ?case
  proof (cases "c = CHR ''*''")
    case True
    let ?run = "length (takeWhile (\<lambda>x. \<not> isLineTerminator x) (drop pos inp))"
    have g: "globItem c = Repeat True 0 None AnyChar"
      using True by (simp add: globItem_def)
    have "(matcher inp (seqs (map globItem (c # cs))) (\<lambda>p c. Some (p, c)) pos caps \<noteq> None)
          = (\<exists>j \<le> ?run. matcher inp (seqs (map globItem cs)) (\<lambda>p c. Some (p, c)) (pos + j) caps \<noteq> None)"
      unfolding s g repeat_star by (simp del: not_None_eq cong: takeWhile_cong)
    also have "\<dots> = (\<exists>j \<le> ?run. globMatches cs (drop (pos + j) inp))"
    proof -
      have "\<And>j. j \<le> ?run \<Longrightarrow> pos + j \<le> length inp"
      proof -
        fix j assume "j \<le> ?run"
        moreover have "?run \<le> length (drop pos inp)" by (rule length_takeWhile_le)
        ultimately show "pos + j \<le> length inp" using Cons.prems by simp
      qed
      then have "\<And>j. j \<le> ?run \<Longrightarrow>
          (matcher inp (seqs (map globItem cs)) (\<lambda>p c. Some (p, c)) (pos + j) caps \<noteq> None)
            = globMatches cs (drop (pos + j) inp)"
        using Cons.IH by blast
      then show ?thesis
        by (simp del: not_None_eq cong: conj_cong)
    qed
    also have "\<dots> = globMatches (c # cs) (drop pos inp)"
      using True
      by (auto simp del: upt_Suc simp: list_ex_iff takeWhile_length_iff less_Suc_eq_le add.commute)
    finally show ?thesis .
  next
    case False
    obtain cl where g: "globItem c = Atom cl"
      and cm: "\<And>x. classMatches cl x = (if c = CHR ''?'' \<or> c = CHR ''.'' then \<not> isLineTerminator x else x = c)"
      using globItem_atom [OF False] by blast
    show ?thesis
    proof (cases "pos < length inp")
      case True
      then have d: "drop pos inp = inp ! pos # drop (Suc pos) inp"
        by (simp add: Cons_nth_drop_Suc)
      have "Suc pos \<le> length inp" using True by simp
      then have ih: "(matcher inp (seqs (map globItem cs)) (\<lambda>p c. Some (p, c)) (Suc pos) caps \<noteq> None)
          = globMatches cs (drop (Suc pos) inp)"
        by (rule Cons.IH)
      show ?thesis
        unfolding s g atom_step [OF True] ih d cm
        using False by simp
    next
      case nl: False
      then have "drop pos inp = []" by simp
      then show ?thesis
        unfolding s g atom_end [OF nl] using False by simp
    qed
  qed
qed

lemma globRegExp_matches: "(regExpMatch (globRegExp arg) name \<noteq> None) = globMatches arg name"
  using glob_matcher [of 0 name arg "[]"]
  by (simp add: regExpMatch_def globRegExp_def del: not_None_eq)

lemma globRegExp_matches_ex: "(\<exists>m. regExpMatch (globRegExp arg) name = Some m) = globMatches arg name"
  using globRegExp_matches [of arg name] by simp

lemma expandArg_fragment:
  assumes "hasWildcard arg" "inGlobFragment arg"
    "getNode sh (currentPath sh) = Node (Directory es)"
  shows "expandArg h sh arg =
     Inr (if filter (globMatches arg) (objectKeys es) \<noteq> [] then filter (globMatches arg) (objectKeys es)
          else [arg])"
  using assms by (simp add: expandArg_def newGlobRegExp_def globRegExp_matches_ex Let_def)

lemma expandArg_plain: "\<not> hasWildcard arg \<Longrightarrow> expandArg h sh arg = Inr [arg]"
  by (simp add: expandArg_def)

lemma expandArg_unterminated:
  "getNode sh (currentPath sh) = Node (Directory es) \<Longrightarrow>
   expandArg h sh ''[*'' = Inl ''Invalid regular expression: /^[.*$/: Unterminated character class''"
  by (simp add: expandArg_def hasWildcard_def newGlobRegExp_def inGlobFragment_def isSyntaxChar_def
      unterminatedClass_def globSource_def Let_def)

text \<open>
  Claim C6 says that an argument with \<open>*\<close> or \<open>?\<close> is matched against the names of the
  current directory and, when no name matches, passed on unchanged with no error. For the
  arguments of the modelled fragment that is what \<open>expandArg\<close> does
  (\<open>expandArg_fragment\<close>, with \<open>globRegExp_matches\<close> for the meaning of the pattern).
  The source escapes no character of the argument, though: in \<open>ls [*\<close> the argument
  becomes the pattern \<open>^[.*$\<close>, whose character class never ends, \<open>new RegExp\<close>
  throws, and since the wildcard stage runs outside the \<open>try\<close> of \<open>execute\<close> the
  exception leaves \<open>execute\<close>; no name is tested and no argument passed on.
\<close>

theorem unterminated_class_throws:
  "rawArgs ''ls [*'' = [''[*''] \<and> hasWildcard ''[*''
   \<and> expandArg exampleHost (newShell None ''user'') ''[*''
       = Inl ''Invalid regular expression: /^[.*$/: Unterminated character class''
   \<and> fst (execute exampleHost ''ls [*'' (newShell None ''user''))
       = Thrown ''Invalid regular expression: /^[.*$/: Unterminated character class''"
  by code_simp

end
